theory Spec2Isabelle
  imports Complex_Main "HOL-Library.Log_Nat"
begin

section \<open>JavaScript numbers and the helpers of helpers.js\<close>

text \<open>
  A JavaScript number is modelled as a real where the program compares it or computes a
  ratio with it (weather values, percentages, probabilities), as an integer where the
  program only ever holds whole numbers (day numbers, millisecond timestamps and
  durations), and as a double with its rounding where the program accumulates it (the
  balance and the money totals, see below).
  Arguments that the program validates with \<open>HELPERS.isValidNumber\<close> are values of
  \<open>jsval\<close>, which adds the numbers that are not finite and the values whose
  \<open>typeof\<close> is not \<open>'number'\<close>.
\<close>

datatype jsval = Num real | NaN | PosInfinity | NegInfinity | NonNumber

text \<open>\<open>typeof value === 'number' && !isNaN(value) && isFinite(value)\<close>\<close>

fun isValidNumber :: "jsval \<Rightarrow> bool" where
  "isValidNumber (Num x) = True"
| "isValidNumber NaN = False"
| "isValidNumber PosInfinity = False"
| "isValidNumber NegInfinity = False"
| "isValidNumber NonNumber = False"

text \<open>\<open>Math.min(Math.max(value, min), max)\<close>\<close>

definition clamp :: "real \<Rightarrow> real \<Rightarrow> real \<Rightarrow> real" where
  "clamp v lo hi = min (max v lo) hi"

definition calculatePercentage :: "real \<Rightarrow> real \<Rightarrow> real" where
  "calculatePercentage current tot =
     (if tot = 0 then 0
      else if current \<ge> tot then 100
      else clamp ((current / tot) * 100) 0 100)"

text \<open>
  \<open>randomFloat(min, max, decimals)\<close>; \<open>u\<close> is the value \<open>Math.random()\<close> returns, a
  number in \<open>[0, 1)\<close>. \<open>toFixed\<close> rounds to the nearest multiple of \<open>10^-decimals\<close>,
  the larger one on a tie.
\<close>

definition randomFloat :: "real \<Rightarrow> real \<Rightarrow> nat \<Rightarrow> real \<Rightarrow> real" where
  "randomFloat lo hi decimals u =
     (let (lo', hi') = (if lo > hi then (hi, lo) else (lo, hi));
          random = u * (hi' - lo') + lo'
      in real_of_int (round (random * 10 ^ decimals)) / 10 ^ decimals)"

text \<open>\<open>randomBoolean(probability)\<close>, with \<open>u\<close> the value of \<open>Math.random()\<close>.\<close>

definition randomBoolean :: "real \<Rightarrow> real \<Rightarrow> bool" where
  "randomBoolean probability u =
     (if probability < 0 \<or> probability > 1 then False else u < probability)"

definition minutesToMilliseconds :: "int \<Rightarrow> int" where
  "minutesToMilliseconds minutes = (if minutes < 0 then 0 else minutes * 60 * 1000)"

text \<open>
  \<open>getElapsedTime(startTime)\<close>: \<open>startTime\<close> is \<open>null\<close> (here \<open>None\<close>) until the entity
  is planted or placed; \<open>now\<close> is the value of \<open>Date.now()\<close>.
\<close>

definition getElapsedTime :: "int option \<Rightarrow> int \<Rightarrow> int" where
  "getElapsedTime startTime now =
     (case startTime of
        None \<Rightarrow> 0
      | Some t \<Rightarrow> if t < 0 then 0 else now - t)"

subsection \<open>Arithmetic on doubles\<close>

text \<open>
  The balance and the money totals of the Ledger are computed with \<open>+=\<close> and \<open>-=\<close>, that
  is with the addition and subtraction of IEEE 754 doubles: the exact sum or difference,
  rounded to the nearest double, to the one with the even significand on a tie, and to
  an infinity when the rounded value is beyond the largest double. A value of type
  number is a finite double (the real it denotes), an infinity or NaN; the sign of zero
  is not kept, no operation modelled here tells the two zeros apart.
\<close>

datatype jsnumber = Fin real | PlusInfinity | MinusInfinity | NotANumber

text \<open>
  The exponent of a positive real: the \<open>e\<close> with \<open>2^e \<le> x < 2^(e+1)\<close>, computed from the
  bit length of the integer part of \<open>x\<close>, or of \<open>1 / x\<close> for \<open>x\<close> below 1.
\<close>

definition floor_log2 :: "real \<Rightarrow> int" where
  "floor_log2 x =
     (if x \<ge> 1 then int (floorlog 2 (nat \<lfloor>x\<rfloor>)) - 1
      else - int (floorlog 2 (nat \<lceil>1 / x\<rceil> - 1)))"

definition roundHalfEven :: "real \<Rightarrow> int" where
  "roundHalfEven y =
     (let f = \<lfloor>y\<rfloor>; d = y - real_of_int f
      in if d < 1 / 2 then f else if d > 1 / 2 then f + 1
         else if even f then f else f + 1)"

text \<open>
  The double an exact result is rounded to: 53 significant bits, the exponent not below
  that of the subnormal numbers, overflow to an infinity.
\<close>

definition toDouble :: "real \<Rightarrow> jsnumber" where
  "toDouble x =
     (if x = 0 then Fin 0
      else
        let e = max (floor_log2 \<bar>x\<bar>) (- 1022);
            ulp = 2 powi (e - 52);
            r = real_of_int (roundHalfEven (x / ulp)) * ulp
        in if \<bar>r\<bar> \<ge> 2 powi 1024 then (if x > 0 then PlusInfinity else MinusInfinity)
           else Fin r)"

text \<open>
  \<open>a + x\<close>, \<open>a - x\<close>, \<open>a < x\<close> and \<open>a >= x\<close> for a number \<open>a\<close> and a finite \<open>x\<close>.
  The operand \<open>x\<close> is the real a finite double denotes (an amount that passed
  \<open>isValidNumber\<close>, a milestone, the goal); comparisons of doubles are exact.
\<close>

definition js_add :: "jsnumber \<Rightarrow> real \<Rightarrow> jsnumber" where
  "js_add a x = (case a of Fin v \<Rightarrow> toDouble (v + x) | other \<Rightarrow> other)"

definition js_sub :: "jsnumber \<Rightarrow> real \<Rightarrow> jsnumber" where
  "js_sub a x = (case a of Fin v \<Rightarrow> toDouble (v - x) | other \<Rightarrow> other)"

definition js_less :: "jsnumber \<Rightarrow> real \<Rightarrow> bool" where
  "js_less a x =
     (case a of Fin v \<Rightarrow> v < x | PlusInfinity \<Rightarrow> False | MinusInfinity \<Rightarrow> True
      | NotANumber \<Rightarrow> False)"

definition js_geq :: "jsnumber \<Rightarrow> real \<Rightarrow> bool" where
  "js_geq a x =
     (case a of Fin v \<Rightarrow> v \<ge> x | PlusInfinity \<Rightarrow> True | MinusInfinity \<Rightarrow> False
      | NotANumber \<Rightarrow> False)"

text \<open>What a method call does: it returns a value or throws.\<close>

datatype 'a outcome = Returned 'a | Threw string


section \<open>config.js and constants.js\<close>

definition STARTING_MONEY :: real where "STARTING_MONEY = 50"
definition GOAL_MONEY :: real where "GOAL_MONEY = 5000"
definition TOTAL_DAYS :: int where "TOTAL_DAYS = 10"
definition WEATHER_FORECAST_DAYS :: int where "WEATHER_FORECAST_DAYS = 7"
definition MAX_CROP_SLOTS :: nat where "MAX_CROP_SLOTS = 10"
definition MAX_ANIMAL_SLOTS :: nat where "MAX_ANIMAL_SLOTS = 5"
definition WEATHER_MIN :: real where "WEATHER_MIN = 0.10"
definition WEATHER_MAX :: real where "WEATHER_MAX = 1.00"
definition WEATHER_DECIMALS :: nat where "WEATHER_DECIMALS = 2"

record demand_rule =
  minWeather :: real
  maxWeather :: real
  demandMultiplier :: real
  r_marketCondition :: string

definition WEATHER_DEMAND_RULES :: "demand_rule list" where
  "WEATHER_DEMAND_RULES =
    [\<lparr>minWeather = 1.00, maxWeather = 1.00, demandMultiplier = 0.8, r_marketCondition = ''Oversupply''\<rparr>,
     \<lparr>minWeather = 0.90, maxWeather = 0.99, demandMultiplier = 0.9, r_marketCondition = ''Good Supply''\<rparr>,
     \<lparr>minWeather = 0.80, maxWeather = 0.89, demandMultiplier = 1.0, r_marketCondition = ''Balanced''\<rparr>,
     \<lparr>minWeather = 0.70, maxWeather = 0.79, demandMultiplier = 1.2, r_marketCondition = ''Slight Shortage''\<rparr>,
     \<lparr>minWeather = 0.60, maxWeather = 0.69, demandMultiplier = 1.3, r_marketCondition = ''Moderate Shortage''\<rparr>,
     \<lparr>minWeather = 0.50, maxWeather = 0.59, demandMultiplier = 1.4, r_marketCondition = ''Significant Shortage''\<rparr>,
     \<lparr>minWeather = 0.40, maxWeather = 0.49, demandMultiplier = 1.5, r_marketCondition = ''High Shortage''\<rparr>,
     \<lparr>minWeather = 0.30, maxWeather = 0.39, demandMultiplier = 1.7, r_marketCondition = ''Severe Shortage''\<rparr>,
     \<lparr>minWeather = 0.10, maxWeather = 0.29, demandMultiplier = 2.0, r_marketCondition = ''Critical Shortage''\<rparr>]"

definition MILESTONES :: "real list" where
  "MILESTONES = [100, 1250, 2500, 3750, 5000]"


section \<open>Weather.js\<close>

record weather =
  w_day :: int
  weatherValue :: real
  demandIndex :: real
  marketCondition :: string
  w_createdAt :: int

text \<open>
  The loop \<open>for (const rule of rules) if (v >= rule.minWeather && v <= rule.maxWeather)
  return ...\<close> of \<open>calculateDemandIndex\<close> and \<open>_getMarketCondition\<close>: the first rule
  whose range holds the value.
\<close>

fun matchingRule :: "demand_rule list \<Rightarrow> real \<Rightarrow> demand_rule option" where
  "matchingRule [] v = None"
| "matchingRule (rule # rules) v =
     (if v \<ge> minWeather rule \<and> v \<le> maxWeather rule then Some rule
      else matchingRule rules v)"

definition calculateDemandIndexWith :: "demand_rule list \<Rightarrow> jsval \<Rightarrow> real" where
  "calculateDemandIndexWith rules wval =
     (case wval of
        Num v \<Rightarrow>
          (case matchingRule rules (clamp v WEATHER_MIN WEATHER_MAX) of
             Some rule \<Rightarrow> demandMultiplier rule
           | None \<Rightarrow> 1.0)
      | _ \<Rightarrow> 1.0)"

definition calculateDemandIndex :: "jsval \<Rightarrow> real" where
  "calculateDemandIndex wval = calculateDemandIndexWith WEATHER_DEMAND_RULES wval"

definition getMarketCondition :: "real \<Rightarrow> string" where
  "getMarketCondition v =
     (case matchingRule WEATHER_DEMAND_RULES v of
        Some rule \<Rightarrow> r_marketCondition rule
      | None \<Rightarrow> ''Unknown'')"

definition generateWeatherValue :: "real \<Rightarrow> real" where
  "generateWeatherValue u = randomFloat WEATHER_MIN WEATHER_MAX WEATHER_DECIMALS u"

text \<open>
  The \<open>day\<close> argument of the constructor: a whole number, or a value whose \<open>typeof\<close> is
  not \<open>'number'\<close>. (Every caller in the program passes \<open>startDay + i\<close>, \<open>lastDay + 1\<close>,
  \<open>json.day || 1\<close> or a literal.)
\<close>

datatype day_arg = DayNum int | DayNotANumber

text \<open>
  \<open>new Weather(day, weatherValue = null)\<close>. \<open>u\<close> is the draw of \<open>Math.random()\<close> used
  when no weather value is given, \<open>now\<close> the value of \<open>Date.now()\<close>.
\<close>

definition Weather_new :: "day_arg \<Rightarrow> real option \<Rightarrow> real \<Rightarrow> int \<Rightarrow> weather" where
  "Weather_new day wv u now =
     (let d = (case day of
                 DayNotANumber \<Rightarrow> 1
               | DayNum n \<Rightarrow> if n < 1 \<or> n > TOTAL_DAYS then 1 else n);
          v = (case wv of
                 Some x \<Rightarrow> clamp x WEATHER_MIN WEATHER_MAX
               | None \<Rightarrow> generateWeatherValue u)
      in \<lparr>w_day = d, weatherValue = v, demandIndex = calculateDemandIndex (Num v),
          marketCondition = getMarketCondition v, w_createdAt = now\<rparr>)"

text \<open>
  \<open>Weather.generateForecast(numDays, startDay)\<close>; \<open>rnd i\<close> is the draw of
  \<open>Math.random()\<close> for the \<open>i\<close>-th entry.
\<close>

definition generateForecast :: "int \<Rightarrow> int \<Rightarrow> (nat \<Rightarrow> real) \<Rightarrow> int \<Rightarrow> weather list" where
  "generateForecast numDays startDay rnd now =
     (let n = (if numDays < 1 then 7 else numDays);
          start = (if startDay < 1 then 1 else startDay)
      in map (\<lambda>i. Weather_new (DayNum (start + int i)) None (rnd i) now) [0..<nat n])"


section \<open>Crop.js\<close>

datatype crop_status = CropSeed | CropGrowing | CropMature | CropHarvested

text \<open>An entry of \<open>GAME_CONFIG.CROPS\<close> (the description text is left out).\<close>

record crop_def =
  cd_id :: string
  cd_name :: string
  cd_seedCost :: real
  cd_growthTime :: int
  cd_baseSellPrice :: real
  cd_tier :: int

definition CROPS :: "crop_def list" where
  "CROPS =
    [\<lparr>cd_id = ''wheat'', cd_name = ''Wheat'', cd_seedCost = 10, cd_growthTime = 2,
      cd_baseSellPrice = 18, cd_tier = 1\<rparr>,
     \<lparr>cd_id = ''carrot'', cd_name = ''Carrot'', cd_seedCost = 30, cd_growthTime = 3,
      cd_baseSellPrice = 60, cd_tier = 2\<rparr>,
     \<lparr>cd_id = ''corn'', cd_name = ''Corn'', cd_seedCost = 70, cd_growthTime = 4,
      cd_baseSellPrice = 150, cd_tier = 3\<rparr>,
     \<lparr>cd_id = ''strawberry'', cd_name = ''Strawberry'', cd_seedCost = 150, cd_growthTime = 5,
      cd_baseSellPrice = 350, cd_tier = 4\<rparr>,
     \<lparr>cd_id = ''watermelon'', cd_name = ''Watermelon'', cd_seedCost = 300, cd_growthTime = 7,
      cd_baseSellPrice = 750, cd_tier = 5\<rparr>]"

record crop =
  c_id :: string
  c_type :: string
  c_name :: string
  seedCost :: real
  c_baseSellPrice :: real
  c_growthTime :: int
  c_tier :: int
  c_growthDuration :: int
  c_status :: crop_status
  plantTime :: "int option"
  harvestTime :: "int option"
  c_createdAt :: int

text \<open>
  \<open>new Crop(type)\<close>. \<open>newId\<close> is the string \<open>HELPERS.generateUniqueId('crop')\<close>
  returns, \<open>now\<close> the value of \<open>Date.now()\<close>.
\<close>

definition Crop_new :: "string \<Rightarrow> string \<Rightarrow> int \<Rightarrow> crop outcome" where
  "Crop_new ty newId now =
     (case find (\<lambda>c. cd_id c = ty) CROPS of
        None \<Rightarrow> Threw ''Invalid crop type''
      | Some cropDef \<Rightarrow>
          Returned \<lparr>c_id = newId, c_type = cd_id cropDef, c_name = cd_name cropDef,
            seedCost = cd_seedCost cropDef, c_baseSellPrice = cd_baseSellPrice cropDef,
            c_growthTime = cd_growthTime cropDef, c_tier = cd_tier cropDef,
            c_growthDuration = minutesToMilliseconds (cd_growthTime cropDef),
            c_status = CropSeed, plantTime = None, harvestTime = None, c_createdAt = now\<rparr>)"

definition Crop_plant :: "crop \<Rightarrow> int \<Rightarrow> bool \<times> crop" where
  "Crop_plant c now =
     (if c_status c \<noteq> CropSeed then (False, c)
      else (True, c\<lparr>c_status := CropGrowing, plantTime := Some now\<rparr>))"

definition Crop_harvest :: "crop \<Rightarrow> int \<Rightarrow> bool \<times> crop" where
  "Crop_harvest c now =
     (if c_status c \<noteq> CropMature then (False, c)
      else (True, c\<lparr>c_status := CropHarvested, harvestTime := Some now\<rparr>))"

definition Crop_isMature :: "crop \<Rightarrow> int \<Rightarrow> bool \<times> crop" where
  "Crop_isMature c now =
     (if c_status c \<noteq> CropGrowing then (c_status c = CropMature, c)
      else let elapsed = getElapsedTime (plantTime c) now;
               isReady = (elapsed \<ge> c_growthDuration c)
           in if isReady then (isReady, c\<lparr>c_status := CropMature\<rparr>) else (isReady, c))"

definition Crop_getGrowthProgress :: "crop \<Rightarrow> int \<Rightarrow> real" where
  "Crop_getGrowthProgress c now =
     (if c_status c = CropSeed then 0
      else if c_status c = CropMature \<or> c_status c = CropHarvested then 100
      else let elapsed = getElapsedTime (plantTime c) now;
               progress = calculatePercentage (real_of_int elapsed)
                            (real_of_int (c_growthDuration c))
           in min 100 progress)"

text \<open>
  What the constructor establishes and no method changes afterwards (\<open>fromJSON\<close> too
  goes through the constructor): the type is one of the configuration and the growth
  duration is the one of that type.
\<close>

definition crop_of_config :: "crop \<Rightarrow> bool" where
  "crop_of_config c =
     (case find (\<lambda>d. cd_id d = c_type c) CROPS of
        None \<Rightarrow> False
      | Some cropDef \<Rightarrow> c_growthDuration c = minutesToMilliseconds (cd_growthTime cropDef))"


section \<open>Animal.js\<close>

datatype animal_status = AnimalYoung | AnimalGrowing | AnimalMature | AnimalBreeding

text \<open>An entry of \<open>GAME_CONFIG.ANIMALS\<close> (emoji and description are left out).\<close>

record animal_def =
  ad_id :: string
  ad_name :: string
  ad_purchaseCost :: real
  ad_growthTime :: int
  ad_baseSellPrice :: real
  ad_breedingChance :: real
  ad_offspringSurvivalRate :: real
  ad_tier :: int

definition ANIMALS :: "animal_def list" where
  "ANIMALS =
    [\<lparr>ad_id = ''chicken'', ad_name = ''Chicken'', ad_purchaseCost = 40, ad_growthTime = 3,
      ad_baseSellPrice = 75, ad_breedingChance = 0.35, ad_offspringSurvivalRate = 0.75,
      ad_tier = 1\<rparr>,
     \<lparr>ad_id = ''rabbit'', ad_name = ''Rabbit'', ad_purchaseCost = 100, ad_growthTime = 4,
      ad_baseSellPrice = 200, ad_breedingChance = 0.40, ad_offspringSurvivalRate = 0.70,
      ad_tier = 2\<rparr>,
     \<lparr>ad_id = ''sheep'', ad_name = ''Sheep'', ad_purchaseCost = 220, ad_growthTime = 5,
      ad_baseSellPrice = 480, ad_breedingChance = 0.30, ad_offspringSurvivalRate = 0.65,
      ad_tier = 3\<rparr>,
     \<lparr>ad_id = ''pig'', ad_name = ''Pig'', ad_purchaseCost = 450, ad_growthTime = 6,
      ad_baseSellPrice = 1050, ad_breedingChance = 0.25, ad_offspringSurvivalRate = 0.60,
      ad_tier = 4\<rparr>,
     \<lparr>ad_id = ''cow'', ad_name = ''Cow'', ad_purchaseCost = 900, ad_growthTime = 8,
      ad_baseSellPrice = 2250, ad_breedingChance = 0.20, ad_offspringSurvivalRate = 0.55,
      ad_tier = 5\<rparr>]"

text \<open>
  The properties of an Animal other than its \<open>offspring\<close> array; the array holds Animals
  again, so the Animal itself is a datatype over the two.
\<close>

record animal_props =
  a_id :: string
  a_type :: string
  a_name :: string
  purchaseCost :: real
  a_baseSellPrice :: real
  a_growthTime :: int
  a_tier :: int
  breedingChance :: real
  offspringSurvivalRate :: real
  a_growthDuration :: int
  a_status :: animal_status
  placeTime :: "int option"
  isPurchased :: bool
  hasOffspring :: bool
  breedingAttempted :: bool
  a_createdAt :: int

datatype animal = Animal (props: animal_props) (offspring: "animal list")

text \<open>An assignment \<open>this.field = ...\<close>: the properties change, the offspring array stays.\<close>

definition assign :: "(animal_props \<Rightarrow> animal_props) \<Rightarrow> animal \<Rightarrow> animal" where
  "assign f a = Animal (f (props a)) (offspring a)"

text \<open>
  \<open>new Animal(type, isPurchased)\<close>. \<open>newId\<close> is the string
  \<open>HELPERS.generateUniqueId('animal')\<close> returns, \<open>now\<close> the value of \<open>Date.now()\<close>.
\<close>

definition Animal_new :: "string \<Rightarrow> bool \<Rightarrow> string \<Rightarrow> int \<Rightarrow> animal outcome" where
  "Animal_new ty purchased newId now =
     (case find (\<lambda>a. ad_id a = ty) ANIMALS of
        None \<Rightarrow> Threw ''Invalid animal type''
      | Some animalDef \<Rightarrow>
          Returned (Animal
            \<lparr>a_id = newId, a_type = ad_id animalDef, a_name = ad_name animalDef,
             purchaseCost = ad_purchaseCost animalDef,
             a_baseSellPrice = ad_baseSellPrice animalDef,
             a_growthTime = ad_growthTime animalDef, a_tier = ad_tier animalDef,
             breedingChance = ad_breedingChance animalDef,
             offspringSurvivalRate = ad_offspringSurvivalRate animalDef,
             a_growthDuration = minutesToMilliseconds (ad_growthTime animalDef),
             a_status = AnimalYoung, placeTime = None, isPurchased = purchased,
             hasOffspring = False, breedingAttempted = False, a_createdAt = now\<rparr>
            []))"

definition Animal_place :: "animal \<Rightarrow> int \<Rightarrow> bool \<times> animal" where
  "Animal_place a now =
     (if a_status (props a) \<noteq> AnimalYoung then (False, a)
      else (True, assign (\<lambda>f. f\<lparr>a_status := AnimalGrowing, placeTime := Some now\<rparr>) a))"

definition Animal_isMature :: "animal \<Rightarrow> int \<Rightarrow> bool \<times> animal" where
  "Animal_isMature a now =
     (if a_status (props a) \<noteq> AnimalGrowing then (a_status (props a) = AnimalMature, a)
      else let elapsed = getElapsedTime (placeTime (props a)) now;
               isReady = (elapsed \<ge> a_growthDuration (props a))
           in if isReady then (isReady, assign (\<lambda>f. f\<lparr>a_status := AnimalMature\<rparr>) a)
              else (isReady, a))"

definition Animal_getGrowthProgress :: "animal \<Rightarrow> int \<Rightarrow> real" where
  "Animal_getGrowthProgress a now =
     (if a_status (props a) = AnimalYoung then 0
      else if a_status (props a) = AnimalMature then 100
      else let elapsed = getElapsedTime (placeTime (props a)) now;
               progress = calculatePercentage (real_of_int elapsed)
                            (real_of_int (a_growthDuration (props a)))
           in min 100 progress)"

definition Animal_canBreed :: "animal \<Rightarrow> int \<Rightarrow> bool" where
  "Animal_canBreed a now =
     (if a_status (props a) \<noteq> AnimalGrowing then False
      else if breedingAttempted (props a) then False
      else Animal_getGrowthProgress a now \<ge> 50)"

text \<open>The object \<open>attemptBreeding\<close> returns.\<close>

record breeding_result =
  attempted :: bool
  bred :: bool
  survived :: bool
  r_offspring :: "animal option"

definition no_attempt :: breeding_result where
  "no_attempt = \<lparr>attempted = False, bred = False, survived = False, r_offspring = None\<rparr>"

text \<open>
  \<open>attemptBreeding()\<close>. \<open>u1\<close> and \<open>u2\<close> are the draws of \<open>Math.random()\<close> in the two
  calls of \<open>randomBoolean\<close>, \<open>newId\<close> the identifier generated for the offspring.
  The result is what the call returns (or that it threw, when the constructor of the
  offspring does) and the Animal as the call leaves it. The offspring pushed to
  \<open>this.offspring\<close> and the one in the result are one object in the program; here
  both are its value at the end of the call.
\<close>

definition Animal_attemptBreeding ::
    "animal \<Rightarrow> string \<Rightarrow> int \<Rightarrow> real \<Rightarrow> real \<Rightarrow> breeding_result outcome \<times> animal" where
  "Animal_attemptBreeding a newId now u1 u2 =
     (if breedingAttempted (props a) then (Returned no_attempt, a)
      else if a_status (props a) \<noteq> AnimalGrowing then (Returned no_attempt, a)
      else
        let a1 = assign (\<lambda>f. f\<lparr>breedingAttempted := True\<rparr>) a;
            result1 = no_attempt\<lparr>attempted := True\<rparr>;
            breedingSuccess = randomBoolean (breedingChance (props a1)) u1
        in if \<not> breedingSuccess then (Returned result1, a1)
           else
             let result2 = result1\<lparr>bred := True\<rparr>;
                 a2 = assign (\<lambda>f. f\<lparr>hasOffspring := True\<rparr>) a1
             in case Animal_new (a_type (props a2)) False newId now of
                  Threw e \<Rightarrow> (Threw e, a2)
                | Returned child \<Rightarrow>
                    let survivalSuccess = randomBoolean (offspringSurvivalRate (props a2)) u2
                    in if \<not> survivalSuccess then (Returned result2, a2)
                       else
                         let placed = snd (Animal_place child now)
                         in (Returned (result2\<lparr>survived := True, r_offspring := Some placed\<rparr>),
                             Animal (props a2) (offspring a2 @ [placed])))"

text \<open>
  What the constructor establishes and no method changes afterwards, as for crops.
\<close>

definition animal_of_config :: "animal \<Rightarrow> bool" where
  "animal_of_config a =
     (case find (\<lambda>d. ad_id d = a_type (props a)) ANIMALS of
        None \<Rightarrow> False
      | Some animalDef \<Rightarrow>
          a_growthDuration (props a) = minutesToMilliseconds (ad_growthTime animalDef))"


section \<open>GameState.js\<close>

datatype game_status = PLAYING | WON | LOST | PAUSED

record statistics =
  totalCropsSold :: int
  totalAnimalsSold :: int
  totalCropsPurchased :: int
  totalAnimalsPurchased :: int
  totalMoneyEarned :: jsnumber
  totalMoneySpent :: jsnumber
  bestSingleSale :: real
  totalOffspringBorn :: int
  successfulBreedings :: int

record inventory =
  seeds :: "crop list"
  crops :: "crop list"
  harvestedCrops :: "crop list"
  youngAnimals :: "animal list"
  animals :: "animal list"

record gamestate =
  currentMoney :: jsnumber
  currentDay :: int
  goalMoney :: real
  gameStatus :: game_status
  weatherForecast :: "weather list"
  inventory :: inventory
  statistics :: statistics
  milestonesReached :: "real list"
  gameStartTime :: int
  lastSaveTime :: "int option"

text \<open>
  The methods take the state and return it as the call leaves it, next to what the call
  returns. The events a method dispatches to the document and its log lines are not part
  of the state and are left out. \<open>rnd\<close> gives the draws of \<open>Math.random()\<close>, \<open>now\<close>
  is \<open>Date.now()\<close>.
\<close>

definition GameState_new :: "(nat \<Rightarrow> real) \<Rightarrow> int \<Rightarrow> gamestate" where
  "GameState_new rnd now =
     \<lparr>currentMoney = Fin STARTING_MONEY, currentDay = 1, goalMoney = GOAL_MONEY,
      gameStatus = PLAYING,
      weatherForecast = generateForecast WEATHER_FORECAST_DAYS 1 rnd now,
      inventory = \<lparr>seeds = [], crops = [], harvestedCrops = [], youngAnimals = [],
                   animals = []\<rparr>,
      statistics = \<lparr>totalCropsSold = 0, totalAnimalsSold = 0, totalCropsPurchased = 0,
                    totalAnimalsPurchased = 0, totalMoneyEarned = Fin 0, totalMoneySpent = Fin 0,
                    bestSingleSale = 0, totalOffspringBorn = 0, successfulBreedings = 0\<rparr>,
      milestonesReached = [], gameStartTime = now, lastSaveTime = None\<rparr>"

definition isGameOver :: "gamestate \<Rightarrow> bool" where
  "isGameOver s = (gameStatus s = WON \<or> gameStatus s = LOST)"

definition reachMilestone :: "gamestate \<Rightarrow> real \<Rightarrow> gamestate" where
  "reachMilestone s amount = s\<lparr>milestonesReached := milestonesReached s @ [amount]\<rparr>"

text \<open>The loop of \<open>_checkMilestones\<close> over the milestones still to visit.\<close>

fun checkMilestonesFrom :: "real list \<Rightarrow> gamestate \<Rightarrow> gamestate" where
  "checkMilestonesFrom [] s = s"
| "checkMilestonesFrom (amount # rest) s =
     (if amount \<in> set (milestonesReached s) then checkMilestonesFrom rest s
      else if js_geq (currentMoney s) amount
           then checkMilestonesFrom rest (reachMilestone s amount)
      else checkMilestonesFrom rest s)"

definition checkMilestones :: "gamestate \<Rightarrow> gamestate" where
  "checkMilestones s = checkMilestonesFrom MILESTONES s"

definition checkWinCondition :: "gamestate \<Rightarrow> gamestate" where
  "checkWinCondition s =
     (if gameStatus s \<noteq> PLAYING then s
      else if js_geq (currentMoney s) (goalMoney s) then s\<lparr>gameStatus := WON\<rparr>
      else s)"

definition checkLoseCondition :: "gamestate \<Rightarrow> gamestate" where
  "checkLoseCondition s =
     (if gameStatus s \<noteq> PLAYING then s
      else if currentDay s > TOTAL_DAYS \<and> js_less (currentMoney s) (goalMoney s)
           then s\<lparr>gameStatus := LOST\<rparr>
      else s)"

definition addMoney :: "gamestate \<Rightarrow> jsval \<Rightarrow> bool \<times> gamestate" where
  "addMoney s amount =
     (case amount of
        Num x \<Rightarrow>
          if x < 0 then (False, s)
          else
            let s1 = s\<lparr>currentMoney := js_add (currentMoney s) x\<rparr>;
                s2 = s1\<lparr>statistics := (statistics s1)
                        \<lparr>totalMoneyEarned := js_add (totalMoneyEarned (statistics s1)) x\<rparr>\<rparr>;
                s3 = (if x > bestSingleSale (statistics s2)
                      then s2\<lparr>statistics := (statistics s2)\<lparr>bestSingleSale := x\<rparr>\<rparr>
                      else s2)
            in (True, checkWinCondition (checkMilestones s3))
      | _ \<Rightarrow> (False, s))"

definition deductMoney :: "gamestate \<Rightarrow> jsval \<Rightarrow> bool \<times> gamestate" where
  "deductMoney s amount =
     (case amount of
        Num x \<Rightarrow>
          if x < 0 then (False, s)
          else if js_less (currentMoney s) x then (False, s)
          else
            let s1 = s\<lparr>currentMoney := js_sub (currentMoney s) x\<rparr>
            in (True, s1\<lparr>statistics := (statistics s1)
                        \<lparr>totalMoneySpent := js_add (totalMoneySpent (statistics s1)) x\<rparr>\<rparr>)
      | _ \<Rightarrow> (False, s))"

definition canAfford :: "gamestate \<Rightarrow> jsval \<Rightarrow> bool" where
  "canAfford s amount = (case amount of Num x \<Rightarrow> js_geq (currentMoney s) x | _ \<Rightarrow> False)"

text \<open>
  \<open>_updateWeatherForecast()\<close>. When the filter leaves no entry, the read
  \<open>this.weatherForecast[this.weatherForecast.length - 1].day\<close> is a property read on
  \<open>undefined\<close> and throws a TypeError, after the filtered array has been stored.
\<close>

definition updateWeatherForecast :: "gamestate \<Rightarrow> real \<Rightarrow> int \<Rightarrow> unit outcome \<times> gamestate" where
  "updateWeatherForecast s u now =
     (let s1 = s\<lparr>weatherForecast := filter (\<lambda>w. w_day w \<ge> currentDay s) (weatherForecast s)\<rparr>
      in if weatherForecast s1 = [] then (Threw ''TypeError'', s1)
         else
           let lastDay = w_day (last (weatherForecast s1));
               newWeather = Weather_new (DayNum (lastDay + 1)) None u now
           in (Returned (), s1\<lparr>weatherForecast := weatherForecast s1 @ [newWeather]\<rparr>))"

definition advanceDay :: "gamestate \<Rightarrow> real \<Rightarrow> int \<Rightarrow> unit outcome \<times> gamestate" where
  "advanceDay s u now =
     (if gameStatus s \<noteq> PLAYING then (Returned (), s)
      else
        let s1 = s\<lparr>currentDay := currentDay s + 1\<rparr>
        in case updateWeatherForecast s1 u now of
             (Threw e, s2) \<Rightarrow> (Threw e, s2)
           | (Returned _, s2) \<Rightarrow> (Returned (), checkLoseCondition s2))"

text \<open>\<open>array.findIndex(p)\<close>, with \<open>None\<close> for \<open>-1\<close>.\<close>

fun findIndex :: "('a \<Rightarrow> bool) \<Rightarrow> 'a list \<Rightarrow> nat option" where
  "findIndex p [] = None"
| "findIndex p (x # xs) = (if p x then Some 0 else map_option Suc (findIndex p xs))"

text \<open>What \<open>array.splice(i, 1)\<close> leaves in the array.\<close>

definition splice1 :: "nat \<Rightarrow> 'a list \<Rightarrow> 'a list" where
  "splice1 i xs = take i xs @ drop (Suc i) xs"

definition addSeed :: "gamestate \<Rightarrow> crop \<Rightarrow> gamestate" where
  "addSeed s crop =
     (let s1 = s\<lparr>inventory := (inventory s)\<lparr>seeds := seeds (inventory s) @ [crop]\<rparr>\<rparr>
      in s1\<lparr>statistics := (statistics s1)
              \<lparr>totalCropsPurchased := totalCropsPurchased (statistics s1) + 1\<rparr>\<rparr>)"

definition plantCrop :: "gamestate \<Rightarrow> string \<Rightarrow> int \<Rightarrow> bool \<times> gamestate" where
  "plantCrop s cropId now =
     (case findIndex (\<lambda>c. c_id c = cropId) (seeds (inventory s)) of
        None \<Rightarrow> (False, s)
      | Some seedIndex \<Rightarrow>
          let crop = seeds (inventory s) ! seedIndex;
              s1 = s\<lparr>inventory := (inventory s)
                      \<lparr>seeds := splice1 seedIndex (seeds (inventory s))\<rparr>\<rparr>;
              planted = snd (Crop_plant crop now)
          in (True, s1\<lparr>inventory := (inventory s1)
                        \<lparr>crops := crops (inventory s1) @ [planted]\<rparr>\<rparr>))"



definition addYoungAnimal :: "gamestate \<Rightarrow> animal \<Rightarrow> gamestate" where
  "addYoungAnimal s animal =
     (let s1 = s\<lparr>inventory := (inventory s)
                  \<lparr>youngAnimals := youngAnimals (inventory s) @ [animal]\<rparr>\<rparr>
      in s1\<lparr>statistics := (statistics s1)
              \<lparr>totalAnimalsPurchased := totalAnimalsPurchased (statistics s1) + 1\<rparr>\<rparr>)"

definition placeAnimal :: "gamestate \<Rightarrow> string \<Rightarrow> int \<Rightarrow> bool \<times> gamestate" where
  "placeAnimal s animalId now =
     (case findIndex (\<lambda>a. a_id (props a) = animalId) (youngAnimals (inventory s)) of
        None \<Rightarrow> (False, s)
      | Some animalIndex \<Rightarrow>
          let animal = youngAnimals (inventory s) ! animalIndex;
              s1 = s\<lparr>inventory := (inventory s)
                      \<lparr>youngAnimals := splice1 animalIndex (youngAnimals (inventory s))\<rparr>\<rparr>;
              placed = snd (Animal_place animal now)
          in (True, s1\<lparr>inventory := (inventory s1)
                        \<lparr>animals := animals (inventory s1) @ [placed]\<rparr>\<rparr>))"


definition addOffspringToFarm :: "gamestate \<Rightarrow> animal \<Rightarrow> gamestate" where
  "addOffspringToFarm s child =
     (let s1 = s\<lparr>inventory := (inventory s)\<lparr>animals := animals (inventory s) @ [child]\<rparr>\<rparr>
      in s1\<lparr>statistics := (statistics s1)
              \<lparr>totalOffspringBorn := totalOffspringBorn (statistics s1) + 1,
               successfulBreedings := successfulBreedings (statistics s1) + 1\<rparr>\<rparr>)"

definition canPlantMoreCrops :: "gamestate \<Rightarrow> bool" where
  "canPlantMoreCrops s = (length (crops (inventory s)) < MAX_CROP_SLOTS)"

definition canPlaceMoreAnimals :: "gamestate \<Rightarrow> bool" where
  "canPlaceMoreAnimals s = (length (animals (inventory s)) < MAX_ANIMAL_SLOTS)"

text \<open>
  \<open>n\<close> calls of \<open>advanceDay()\<close> in a row, as the day timer makes them; the \<open>k\<close>-th call
  draws \<open>rnd k\<close>. A call that throws leaves the state as it was at the throw, and the
  timer goes on to the next call.
\<close>

fun advanceDays :: "nat \<Rightarrow> gamestate \<Rightarrow> (nat \<Rightarrow> real) \<Rightarrow> int \<Rightarrow> gamestate" where
  "advanceDays 0 s rnd now = s"
| "advanceDays (Suc n) s rnd now =
     snd (advanceDay (advanceDays n s rnd now) (rnd n) now)"


text \<open>
  What the forecast window shows of a state: the status, the current day and the days of
  the forecast entries in order.
\<close>

definition window :: "gamestate \<Rightarrow> game_status \<times> int \<times> int list" where
  "window s = (gameStatus s, currentDay s, map w_day (weatherForecast s))"


section \<open>FarmManager.js\<close>

text \<open>
  The result objects \<open>{success: false, message}\<close> of \<open>FarmManager.plantCrop\<close> and
  \<open>FarmManager.placeAnimal\<close>, one constructor for each message, and
  \<open>{success: true, message, crop}\<close> as \<open>Inr\<close> of the entity.
\<close>

datatype farm_refusal = GameIsOver | NoSpace | NotInInventory | FailedToMove

definition FarmManager_plantCrop ::
    "gamestate \<Rightarrow> string \<Rightarrow> int \<Rightarrow> (farm_refusal + crop) \<times> gamestate" where
  "FarmManager_plantCrop s cropId now =
     (if isGameOver s then (Inl GameIsOver, s)
      else if \<not> canPlantMoreCrops s then (Inl NoSpace, s)
      else case find (\<lambda>c. c_id c = cropId) (seeds (inventory s)) of
             None \<Rightarrow> (Inl NotInInventory, s)
           | Some seed \<Rightarrow>
               let (planted, s1) = plantCrop s cropId now
               in if \<not> planted then (Inl FailedToMove, s1)
                  else (Inr (snd (Crop_plant seed now)), s1))"

definition FarmManager_placeAnimal ::
    "gamestate \<Rightarrow> string \<Rightarrow> int \<Rightarrow> (farm_refusal + animal) \<times> gamestate" where
  "FarmManager_placeAnimal s animalId now =
     (if isGameOver s then (Inl GameIsOver, s)
      else if \<not> canPlaceMoreAnimals s then (Inl NoSpace, s)
      else case find (\<lambda>a. a_id (props a) = animalId) (youngAnimals (inventory s)) of
             None \<Rightarrow> (Inl NotInInventory, s)
           | Some animal \<Rightarrow>
               let (placed, s1) = placeAnimal s animalId now
               in if \<not> placed then (Inl FailedToMove, s1)
                  else (Inr (snd (Animal_place animal now)), s1))"


section \<open>TimerManager.js\<close>

text \<open>
  \<open>_attemptAnimalBreeding(animal)\<close> followed by \<open>_onBreedingSuccess\<close>, for the animal
  at position \<open>i\<close> of the animals on the farm (the loop of \<open>_updateAnimals\<close> hands
  each of them over in turn).
\<close>

definition attemptAnimalBreeding ::
    "gamestate \<Rightarrow> nat \<Rightarrow> string \<Rightarrow> int \<Rightarrow> real \<Rightarrow> real \<Rightarrow> unit outcome \<times> gamestate" where
  "attemptAnimalBreeding s i newId now u1 u2 =
     (let (res, animal1) = Animal_attemptBreeding (animals (inventory s) ! i) newId now u1 u2;
          s1 = s\<lparr>inventory := (inventory s)
                  \<lparr>animals := (animals (inventory s))[i := animal1]\<rparr>\<rparr>
      in case res of
           Threw e \<Rightarrow> (Threw e, s1)
         | Returned result \<Rightarrow>
             if attempted result \<and> bred result \<and> survived result
             then (case r_offspring result of
                     Some child \<Rightarrow> (Returned (), addOffspringToFarm s1 child)
                   | None \<Rightarrow> (Returned (), s1))
             else (Returned (), s1))"


section \<open>Sequences of method calls on one Animal\<close>

text \<open>
  The methods of Animal that assign to its properties, as calls with their arguments
  (the clock and the random draws included), and the Animal a call leaves behind.
\<close>

datatype animal_call =
    CallPlace int
  | CallIsMature int
  | CallAttemptBreeding string int real real

fun animal_after :: "animal_call \<Rightarrow> animal \<Rightarrow> animal" where
  "animal_after (CallPlace now) a = snd (Animal_place a now)"
| "animal_after (CallIsMature now) a = snd (Animal_isMature a now)"
| "animal_after (CallAttemptBreeding newId now u1 u2) a =
     snd (Animal_attemptBreeding a newId now u1 u2)"


section \<open>Example values\<close>

text \<open>A wheat seed bought at time 0 and planted at time 1000.\<close>

definition wheat_seed :: crop where
  "wheat_seed =
     \<lparr>c_id = ''crop_0_abc123'', c_type = ''wheat'', c_name = ''Wheat'', seedCost = 10,
      c_baseSellPrice = 18, c_growthTime = 2, c_tier = 1, c_growthDuration = 120000,
      c_status = CropSeed, plantTime = None, harvestTime = None, c_createdAt = 0\<rparr>"

definition wheat_growing :: crop where
  "wheat_growing = snd (Crop_plant wheat_seed 1000)"

text \<open>A chicken bought at time 0 and placed at time 1000.\<close>

definition chicken_young :: animal where
  "chicken_young =
     Animal \<lparr>a_id = ''animal_0_def456'', a_type = ''chicken'', a_name = ''Chicken'',
             purchaseCost = 40, a_baseSellPrice = 75, a_growthTime = 3, a_tier = 1,
             breedingChance = 0.35, offspringSurvivalRate = 0.75, a_growthDuration = 180000,
             a_status = AnimalYoung, placeTime = None, isPurchased = True,
             hasOffspring = False, breedingAttempted = False, a_createdAt = 0\<rparr> []"

definition chicken_growing :: animal where
  "chicken_growing = snd (Animal_place chicken_young 1000)"

text \<open>
  The chicken of a test with \<open>breedingChance = 1.0\<close> and \<open>offspringSurvivalRate = 0.0\<close>.
\<close>

definition chicken_always_breeds :: animal where
  "chicken_always_breeds =
     assign (\<lambda>f. f\<lparr>breedingChance := 1.0, offspringSurvivalRate := 0.0\<rparr>) chicken_growing"

text \<open>A new game, and the game after a sale of 5000 has won it.\<close>

definition new_game :: gamestate where
  "new_game = GameState_new (\<lambda>i. 0) 0"


text \<open>
  A farm at capacity: ten growing crops and five growing animals, with one more seed and
  one more young animal in stock.
\<close>

definition full_farm :: gamestate where
  "full_farm =
     new_game\<lparr>inventory :=
       \<lparr>seeds = [wheat_seed], crops = replicate 10 wheat_growing, harvestedCrops = [],
        youngAnimals = [chicken_young], animals = replicate 5 chicken_growing\<rparr>\<rparr>"


section \<open>The demand index of each two-decimal weather value\<close>

lemma calculateDemandIndex_grid:
  assumes "10 \<le> k" "k \<le> 100"
  shows "calculateDemandIndex (Num (real_of_int k / 100)) =
         (if k = 100 then 0.8 else if 90 \<le> k then 0.9 else if 80 \<le> k then 1.0
          else if 70 \<le> k then 1.2 else if 60 \<le> k then 1.3 else if 50 \<le> k then 1.4
          else if 40 \<le> k then 1.5 else if 30 \<le> k then 1.7 else 2.0)"
proof -
  have c: "clamp (real_of_int k / 100) WEATHER_MIN WEATHER_MAX = real_of_int k / 100"
    using assms by (simp add: clamp_def WEATHER_MIN_def WEATHER_MAX_def)
  have le: "\<And>n::int. (real_of_int k \<le> real_of_int n) = (k \<le> n)"
    by simp
  show ?thesis
    unfolding calculateDemandIndex_def calculateDemandIndexWith_def jsval.case c
      WEATHER_DEMAND_RULES_def
    using assms by (simp add: field_simps)
qed

lemma Weather_new_day:
  "w_day (Weather_new day wv u now) =
     (case day of DayNotANumber \<Rightarrow> 1
      | DayNum n \<Rightarrow> if n < 1 \<or> n > TOTAL_DAYS then 1 else n)"
  by (simp add: Weather_new_def Let_def)

lemma generateWeatherValue_grid:
  assumes "0 \<le> u" "u < 1"
  shows "\<exists>k. 10 \<le> k \<and> k \<le> 100 \<and> generateWeatherValue u = real_of_int k / 100"
proof -
  define x where "x = (u * (1 - 1 / 10) + 1 / 10) * 100"
  have g: "generateWeatherValue u = real_of_int (round x) / 100"
    by (simp add: generateWeatherValue_def randomFloat_def WEATHER_MIN_def WEATHER_MAX_def
        WEATHER_DECIMALS_def x_def)
  have lo: "10 \<le> x" and hi: "x \<le> 100"
    using assms by (simp_all add: x_def)
  have "round (10::real) \<le> round x"
    using lo by (rule round_mono)
  moreover have "round x \<le> round (100::real)"
    using hi by (rule round_mono)
  ultimately have "10 \<le> round x" "round x \<le> 100"
    by simp_all
  with g show ?thesis by blast
qed

text \<open>
  C7 (as amended). The rule table leaves gaps between its ranges (0.29 to 0.30, 0.39 to
  0.40, ...), closed only for values with two decimals, which is what
  \<open>_generateWeatherValue\<close> produces (lemma \<open>generateWeatherValue_grid\<close>). On the
  two-decimal values of the interval 0.10 to 1.00, \<open>calculateDemandIndex\<close> is
  monotonically non-increasing: a lower weather value never gives a lower demand index.
\<close>

theorem calculateDemandIndex_antimono_two_decimals:
  assumes "10 \<le> k1" "k1 < k2" "k2 \<le> 100"
  shows "calculateDemandIndex (Num (real_of_int k1 / 100))
           \<ge> calculateDemandIndex (Num (real_of_int k2 / 100))"
proof -
  have k1: "10 \<le> k1" "k1 \<le> 100" and k2: "10 \<le> k2" "k2 \<le> 100"
    using assms by simp_all
  show ?thesis
    unfolding calculateDemandIndex_grid [OF k1] calculateDemandIndex_grid [OF k2]
    using assms by simp
qed

theorem calculateDemandIndex_antimono_two_decimals_witness:
  "(10::int) \<le> 29 \<and> (29::int) < 30 \<and> (30::int) \<le> 100
     \<and> calculateDemandIndex (Num (real_of_int 29 / 100)) = 2.0
     \<and> calculateDemandIndex (Num (real_of_int 30 / 100)) = 1.7
     \<and> calculateDemandIndex (Num (real_of_int 29 / 100))
           \<ge> calculateDemandIndex (Num (real_of_int 30 / 100))"
  using calculateDemandIndex_antimono_two_decimals [of 29 30]
    calculateDemandIndex_grid [of 29] calculateDemandIndex_grid [of 30]
  by simp

text \<open>
  C7 as stated fails: 0.295 lies in the valid interval but in no rule's range, so the
  fallback multiplier 1.0 is returned, which is below the 1.7 of the better weather 0.30.
\<close>

theorem calculateDemandIndex_antimono_counterexample:
  "WEATHER_MIN \<le> 0.295 \<and> (0.295::real) < 0.30 \<and> 0.30 \<le> WEATHER_MAX
     \<and> calculateDemandIndex (Num 0.295) = 1.0
     \<and> calculateDemandIndex (Num 0.30) = 1.7
     \<and> \<not> calculateDemandIndex (Num 0.295) \<ge> calculateDemandIndex (Num 0.30)"
  by (simp add: calculateDemandIndex_def calculateDemandIndexWith_def clamp_def
      WEATHER_MIN_def WEATHER_MAX_def WEATHER_DEMAND_RULES_def)


section \<open>The day of a Weather\<close>

lemma generateForecast_days:
  "map w_day (generateForecast numDays startDay rnd now) =
     map (\<lambda>i. let d = (if startDay < 1 then 1 else startDay) + int i
                in if d < 1 \<or> d > TOTAL_DAYS then 1 else d)
         [0..<nat (if numDays < 1 then 7 else numDays)]"
  by (simp add: generateForecast_def Weather_new_day Let_def comp_def)

text \<open>
  C9. A Weather constructed with a day that is not a number, is below 1 or is above
  \<open>TOTAL_DAYS\<close> has day 1, whatever weather value is given or drawn; the day asked for
  is not kept. \<open>generateForecast\<close> does ask for such days: the forecast of 7 days
  from day 5 has the days 5 to 10 and then 1, where day 11 was asked for.
\<close>

theorem Weather_new_day_out_of_range:
  "w_day (Weather_new DayNotANumber wv u now) = 1
   \<and> (\<forall>n. n < 1 \<or> n > TOTAL_DAYS \<longrightarrow> w_day (Weather_new (DayNum n) wv u now) = 1)
   \<and> TOTAL_DAYS = 10
   \<and> map w_day (generateForecast 7 5 rnd now) = [5, 6, 7, 8, 9, 10, 1]"
  by (simp add: Weather_new_day generateForecast_days TOTAL_DAYS_def upt_rec)

theorem Weather_new_day_out_of_range_witness:
  "(11::int) > TOTAL_DAYS \<and> w_day (Weather_new (DayNum 11) None 0 0) = 1"
proof -
  have gt: "(11::int) > TOTAL_DAYS"
    by (simp add: TOTAL_DAYS_def)
  have "\<forall>n. n < 1 \<or> n > TOTAL_DAYS \<longrightarrow> w_day (Weather_new (DayNum n) None 0 0) = 1"
    by (rule Weather_new_day_out_of_range [of None 0 0 "\<lambda>_. 0", THEN conjunct2, THEN conjunct1])
  with gt show ?thesis by blast
qed

section \<open>Growth progress\<close>

lemma calculatePercentage_le_100: "calculatePercentage e T \<le> 100"
  by (simp add: calculatePercentage_def clamp_def)

lemma calculatePercentage_mono:
  assumes "0 < T" "e1 \<le> e2"
  shows "calculatePercentage e1 T \<le> calculatePercentage e2 T"
proof -
  have "e1 / T * 100 \<le> e2 / T * 100"
    using assms by (simp add: divide_right_mono)
  then show ?thesis
    using assms by (auto simp: calculatePercentage_def clamp_def min_def max_def)
qed

lemma calculatePercentage_full:
  assumes "T \<noteq> 0" "T \<le> e"
  shows "calculatePercentage e T = 100"
  using assms by (simp add: calculatePercentage_def)

lemma getElapsedTime_mono: "t1 \<le> t2 \<Longrightarrow> getElapsedTime p t1 \<le> getElapsedTime p t2"
  by (simp add: getElapsedTime_def split: option.splits)

lemma find_Some_set: "find P xs = Some x \<Longrightarrow> x \<in> set xs"
  by (induction xs) (auto split: if_splits)

lemma CROPS_growthTime_pos: "d \<in> set CROPS \<Longrightarrow> 0 < cd_growthTime d"
  by (auto simp: CROPS_def)

lemma ANIMALS_growthTime_pos: "d \<in> set ANIMALS \<Longrightarrow> 0 < ad_growthTime d"
  by (auto simp: ANIMALS_def)

lemma crop_of_config_duration_pos: "crop_of_config c \<Longrightarrow> 0 < c_growthDuration c"
  by (auto simp: crop_of_config_def minutesToMilliseconds_def split: option.splits
      dest!: find_Some_set CROPS_growthTime_pos)

lemma animal_of_config_duration_pos:
  "animal_of_config a \<Longrightarrow> 0 < a_growthDuration (props a)"
  by (auto simp: animal_of_config_def minutesToMilliseconds_def split: option.splits
      dest!: find_Some_set ANIMALS_growthTime_pos)

lemma find_cong_id: "find P xs = Some x \<Longrightarrow> P x"
  by (induction xs) (auto split: if_splits)

lemma Crop_new_of_config: "Crop_new ty newId now = Returned c \<Longrightarrow> crop_of_config c"
proof -
  assume a: "Crop_new ty newId now = Returned c"
  then obtain d where d: "find (\<lambda>c. cd_id c = ty) CROPS = Some d"
    by (auto simp: Crop_new_def split: option.splits)
  then have "cd_id d = ty" by (rule find_cong_id)
  with a d show ?thesis
    by (auto simp: Crop_new_def crop_of_config_def)
qed

lemma Crop_methods_of_config:
  "crop_of_config c \<Longrightarrow> crop_of_config (snd (Crop_plant c now))"
  "crop_of_config c \<Longrightarrow> crop_of_config (snd (Crop_isMature c now))"
  "crop_of_config c \<Longrightarrow> crop_of_config (snd (Crop_harvest c now))"
  by (auto simp: crop_of_config_def Crop_plant_def Crop_isMature_def Crop_harvest_def Let_def
      split: option.splits)

lemma Animal_new_of_config:
  "Animal_new ty purchased newId now = Returned a \<Longrightarrow> animal_of_config a"
proof -
  assume a: "Animal_new ty purchased newId now = Returned a"
  then obtain d where d: "find (\<lambda>a. ad_id a = ty) ANIMALS = Some d"
    by (auto simp: Animal_new_def split: option.splits)
  then have "ad_id d = ty" by (rule find_cong_id)
  with a d show ?thesis
    by (auto simp: Animal_new_def animal_of_config_def)
qed

lemma Animal_methods_of_config:
  "animal_of_config a \<Longrightarrow> animal_of_config (snd (Animal_place a now))"
  "animal_of_config a \<Longrightarrow> animal_of_config (snd (Animal_isMature a now))"
  "animal_of_config a \<Longrightarrow> animal_of_config (snd (Animal_attemptBreeding a newId now u1 u2))"
  by (auto simp: animal_of_config_def Animal_place_def Animal_isMature_def
      Animal_attemptBreeding_def assign_def Let_def split: outcome.splits option.splits)

lemma Crop_progress_mono:
  assumes "crop_of_config c" "c_status c = CropGrowing" "t1 \<le> t2"
  shows "Crop_getGrowthProgress c t1 \<le> Crop_getGrowthProgress c t2"
proof -
  have T: "0 < real_of_int (c_growthDuration c)"
    using crop_of_config_duration_pos [OF assms(1)] by simp
  have "real_of_int (getElapsedTime (plantTime c) t1) \<le> real_of_int (getElapsedTime (plantTime c) t2)"
    using getElapsedTime_mono [OF assms(3)] by simp
  from calculatePercentage_mono [OF T this] show ?thesis
    using assms(2) by (simp add: Crop_getGrowthProgress_def Let_def min_def)
qed

lemma Crop_progress_full:
  assumes "crop_of_config c" "c_status c = CropGrowing"
    "getElapsedTime (plantTime c) t \<ge> c_growthDuration c"
  shows "Crop_getGrowthProgress c t = 100"
proof -
  have T: "real_of_int (c_growthDuration c) \<noteq> 0"
    using crop_of_config_duration_pos [OF assms(1)] by simp
  have "real_of_int (c_growthDuration c) \<le> real_of_int (getElapsedTime (plantTime c) t)"
    using assms(3) by simp
  from calculatePercentage_full [OF T this] show ?thesis
    using assms(2) by (simp add: Crop_getGrowthProgress_def Let_def)
qed

lemma Crop_progress_le_100: "Crop_getGrowthProgress c t \<le> 100"
  by (simp add: Crop_getGrowthProgress_def Let_def)

lemma Animal_progress_mono:
  assumes "animal_of_config a" "a_status (props a) = AnimalGrowing" "t1 \<le> t2"
  shows "Animal_getGrowthProgress a t1 \<le> Animal_getGrowthProgress a t2"
proof -
  have T: "0 < real_of_int (a_growthDuration (props a))"
    using animal_of_config_duration_pos [OF assms(1)] by simp
  have "real_of_int (getElapsedTime (placeTime (props a)) t1)
          \<le> real_of_int (getElapsedTime (placeTime (props a)) t2)"
    using getElapsedTime_mono [OF assms(3)] by simp
  from calculatePercentage_mono [OF T this] show ?thesis
    using assms(2) by (simp add: Animal_getGrowthProgress_def Let_def min_def)
qed

lemma Animal_progress_full:
  assumes "animal_of_config a" "a_status (props a) = AnimalGrowing"
    "getElapsedTime (placeTime (props a)) t \<ge> a_growthDuration (props a)"
  shows "Animal_getGrowthProgress a t = 100"
proof -
  have T: "real_of_int (a_growthDuration (props a)) \<noteq> 0"
    using animal_of_config_duration_pos [OF assms(1)] by simp
  have "real_of_int (a_growthDuration (props a))
          \<le> real_of_int (getElapsedTime (placeTime (props a)) t)"
    using assms(3) by simp
  from calculatePercentage_full [OF T this] show ?thesis
    using assms(2) by (simp add: Animal_getGrowthProgress_def Let_def)
qed

lemma Animal_progress_le_100: "Animal_getGrowthProgress a t \<le> 100"
  by (simp add: Animal_getGrowthProgress_def Let_def)


lemma wheat_seed_constructed: "Crop_new ''wheat'' ''crop_0_abc123'' 0 = Returned wheat_seed"
  by (simp add: Crop_new_def CROPS_def wheat_seed_def minutesToMilliseconds_def)

lemma chicken_young_constructed:
  "Animal_new ''chicken'' True ''animal_0_def456'' 0 = Returned chicken_young"
  by (simp add: Animal_new_def ANIMALS_def chicken_young_def minutesToMilliseconds_def)

lemma wheat_growing_of_config: "crop_of_config wheat_growing"
  unfolding wheat_growing_def
  by (rule Crop_methods_of_config, rule Crop_new_of_config, rule wheat_seed_constructed)

lemma chicken_growing_of_config: "animal_of_config chicken_growing"
  unfolding chicken_growing_def
  by (rule Animal_methods_of_config, rule Animal_new_of_config, rule chicken_young_constructed)

text \<open>
  C8. For a Crop or an Animal that is Growing (with the growth duration the constructor
  gave it from the configuration), \<open>getGrowthProgress()\<close> read at an earlier and at a
  later time never decreases, never exceeds 100, and is exactly 100 as soon as the
  elapsed time has reached the growth duration.
\<close>

theorem getGrowthProgress_monotone_capped:
  "(crop_of_config c \<and> c_status c = CropGrowing \<longrightarrow>
      (t1 < t2 \<longrightarrow> Crop_getGrowthProgress c t1 \<le> Crop_getGrowthProgress c t2)
      \<and> Crop_getGrowthProgress c t1 \<le> 100
      \<and> (getElapsedTime (plantTime c) t1 \<ge> c_growthDuration c \<longrightarrow>
           Crop_getGrowthProgress c t1 = 100))
   \<and> (animal_of_config a \<and> a_status (props a) = AnimalGrowing \<longrightarrow>
      (t1 < t2 \<longrightarrow> Animal_getGrowthProgress a t1 \<le> Animal_getGrowthProgress a t2)
      \<and> Animal_getGrowthProgress a t1 \<le> 100
      \<and> (getElapsedTime (placeTime (props a)) t1 \<ge> a_growthDuration (props a) \<longrightarrow>
           Animal_getGrowthProgress a t1 = 100))"
  using Crop_progress_mono [of c t1 t2] Crop_progress_full [of c t1]
    Crop_progress_le_100 [of c t1]
    Animal_progress_mono [of a t1 t2] Animal_progress_full [of a t1]
    Animal_progress_le_100 [of a t1]
  by simp

lemma example_progress_values:
  "Crop_getGrowthProgress wheat_growing 31000 = 25"
  "Crop_getGrowthProgress wheat_growing 121000 = 100"
  "Crop_getGrowthProgress wheat_growing 200000 = 100"
  "Animal_getGrowthProgress chicken_growing 46000 = 25"
  "Animal_getGrowthProgress chicken_growing 181000 = 100"
  "Animal_getGrowthProgress chicken_growing 200000 = 100"
  by (simp_all add: Crop_getGrowthProgress_def Animal_getGrowthProgress_def wheat_growing_def
      chicken_growing_def Crop_plant_def Animal_place_def wheat_seed_def chicken_young_def
      assign_def getElapsedTime_def calculatePercentage_def clamp_def)

theorem getGrowthProgress_monotone_capped_witness:
  "crop_of_config wheat_growing \<and> c_status wheat_growing = CropGrowing
   \<and> animal_of_config chicken_growing \<and> a_status (props chicken_growing) = AnimalGrowing
   \<and> (31000::int) < 200000
   \<and> getElapsedTime (plantTime wheat_growing) 200000 \<ge> c_growthDuration wheat_growing
   \<and> getElapsedTime (placeTime (props chicken_growing)) 200000
        \<ge> a_growthDuration (props chicken_growing)
   \<and> Crop_getGrowthProgress wheat_growing 31000 \<le> Crop_getGrowthProgress wheat_growing 200000
   \<and> Crop_getGrowthProgress wheat_growing 200000 = 100
   \<and> Animal_getGrowthProgress chicken_growing 31000
        \<le> Animal_getGrowthProgress chicken_growing 200000
   \<and> Animal_getGrowthProgress chicken_growing 200000 = 100"
proof -
  have st: "c_status wheat_growing = CropGrowing"
    "a_status (props chicken_growing) = AnimalGrowing"
    "getElapsedTime (plantTime wheat_growing) 200000 \<ge> c_growthDuration wheat_growing"
    "getElapsedTime (placeTime (props chicken_growing)) 200000
        \<ge> a_growthDuration (props chicken_growing)"
    by (simp_all add: wheat_growing_def chicken_growing_def Crop_plant_def Animal_place_def
        wheat_seed_def chicken_young_def assign_def getElapsedTime_def)
  show ?thesis
    using getGrowthProgress_monotone_capped [of wheat_growing 31000 200000 chicken_growing]
      getGrowthProgress_monotone_capped [of wheat_growing 200000 200001 chicken_growing]
      wheat_growing_of_config chicken_growing_of_config st
    by simp
qed

section \<open>Breeding\<close>

lemma Animal_new_of_config_returns:
  assumes "animal_of_config a"
  shows "\<exists>child. Animal_new (a_type (props a)) purchased newId now = Returned child
           \<and> offspring child = [] \<and> a_status (props child) = AnimalYoung"
  using assms
  by (auto simp: animal_of_config_def Animal_new_def split: option.splits)

lemma attemptBreeding_refused:
  assumes "breedingAttempted (props a) \<or> a_status (props a) \<noteq> AnimalGrowing"
  shows "Animal_attemptBreeding a newId now u1 u2 = (Returned no_attempt, a)"
  using assms by (auto simp: Animal_attemptBreeding_def)

lemma attemptBreeding_latches:
  assumes "a_status (props a) = AnimalGrowing"
  shows "breedingAttempted (props (snd (Animal_attemptBreeding a newId now u1 u2)))"
  using assms
  by (auto simp: Animal_attemptBreeding_def assign_def Let_def split: outcome.splits)

lemma attemptBreeding_status:
  "a_status (props (snd (Animal_attemptBreeding a newId now u1 u2))) = a_status (props a)"
  by (auto simp: Animal_attemptBreeding_def assign_def Let_def split: outcome.splits)

lemma animal_after_keeps_latch:
  assumes "breedingAttempted (props a)"
  shows "breedingAttempted (props (animal_after c a))"
  using assms
  by (cases c)
     (auto simp: Animal_place_def Animal_isMature_def attemptBreeding_refused assign_def Let_def)

lemma fold_animal_after_keeps_latch:
  "breedingAttempted (props a) \<Longrightarrow> breedingAttempted (props (fold animal_after calls a))"
  by (induction calls arbitrary: a) (simp_all add: animal_after_keeps_latch)

text \<open>
  C5. Whatever the first call of \<open>attemptBreeding()\<close> did, a second call right after it
  returns \<open>{attempted: false, bred: false, survived: false, offspring: null}\<close> and
  changes nothing. A first call on a Growing animal that has not attempted yet (a real
  attempt) leaves \<open>breedingAttempted\<close> true whatever the two random draws were; no
  later sequence of calls of \<open>place\<close>, \<open>isMature\<close> and \<open>attemptBreeding\<close> makes it
  false again, and after any such sequence \<open>attemptBreeding()\<close> still returns the
  all-false result.
\<close>

theorem attemptBreeding_one_shot:
  "Animal_attemptBreeding (snd (Animal_attemptBreeding a id1 now1 u1 u2)) id2 now2 v1 v2
     = (Returned no_attempt, snd (Animal_attemptBreeding a id1 now1 u1 u2))
   \<and> no_attempt = \<lparr>attempted = False, bred = False, survived = False, r_offspring = None\<rparr>
   \<and> (a_status (props a) = AnimalGrowing \<and> \<not> breedingAttempted (props a) \<longrightarrow>
        breedingAttempted (props (snd (Animal_attemptBreeding a id1 now1 u1 u2)))
        \<and> (\<forall>calls. breedingAttempted
              (props (fold animal_after calls (snd (Animal_attemptBreeding a id1 now1 u1 u2))))
            \<and> Animal_attemptBreeding
                (fold animal_after calls (snd (Animal_attemptBreeding a id1 now1 u1 u2)))
                id2 now2 v1 v2
              = (Returned no_attempt,
                 fold animal_after calls (snd (Animal_attemptBreeding a id1 now1 u1 u2)))))"
proof -
  let ?a1 = "snd (Animal_attemptBreeding a id1 now1 u1 u2)"
  have "breedingAttempted (props ?a1) \<or> a_status (props ?a1) \<noteq> AnimalGrowing"
    using attemptBreeding_latches [of a id1 now1 u1 u2] attemptBreeding_status [of a id1 now1 u1 u2]
    by auto
  then have second: "Animal_attemptBreeding ?a1 id2 now2 v1 v2 = (Returned no_attempt, ?a1)"
    by (rule attemptBreeding_refused)
  have later: "breedingAttempted (props (fold animal_after calls ?a1))
      \<and> Animal_attemptBreeding (fold animal_after calls ?a1) id2 now2 v1 v2
          = (Returned no_attempt, fold animal_after calls ?a1)"
    if "a_status (props a) = AnimalGrowing" for calls
  proof -
    have "breedingAttempted (props ?a1)"
      using that by (rule attemptBreeding_latches)
    then have "breedingAttempted (props (fold animal_after calls ?a1))"
      by (rule fold_animal_after_keeps_latch)
    then show ?thesis
      by (simp add: attemptBreeding_refused)
  qed
  show ?thesis
    using second later attemptBreeding_latches [of a id1 now1 u1 u2]
    by (simp add: no_attempt_def)
qed

lemma chicken_growing_state:
  "a_status (props chicken_growing) = AnimalGrowing"
  "\<not> breedingAttempted (props chicken_growing)"
  "offspring chicken_growing = []"
  "breedingChance (props chicken_growing) = 0.35"
  "offspringSurvivalRate (props chicken_growing) = 0.75"
  by (simp_all add: chicken_growing_def chicken_young_def Animal_place_def assign_def)

theorem attemptBreeding_one_shot_witness:
  "a_status (props chicken_growing) = AnimalGrowing \<and> \<not> breedingAttempted (props chicken_growing)
   \<and> breedingAttempted
        (props (snd (Animal_attemptBreeding chicken_growing ''animal_2000_xyz'' 2000 0.9 0.9)))
   \<and> breedingAttempted
        (props (fold animal_after [CallIsMature 3000, CallAttemptBreeding ''animal_4000_uvw'' 4000 0 0]
                 (snd (Animal_attemptBreeding chicken_growing ''animal_2000_xyz'' 2000 0.9 0.9))))
   \<and> fst (Animal_attemptBreeding
        (fold animal_after [CallIsMature 3000]
           (snd (Animal_attemptBreeding chicken_growing ''animal_2000_xyz'' 2000 0.9 0.9)))
        ''animal_4000_uvw'' 4000 0 0) = Returned no_attempt"
proof -
  let ?a1 = "snd (Animal_attemptBreeding chicken_growing ''animal_2000_xyz'' 2000 0.9 0.9)"
  have latch: "breedingAttempted (props ?a1)
      \<and> (\<forall>calls. breedingAttempted (props (fold animal_after calls ?a1))
           \<and> Animal_attemptBreeding (fold animal_after calls ?a1) ''animal_4000_uvw'' 4000 0 0
               = (Returned no_attempt, fold animal_after calls ?a1))"
    using attemptBreeding_one_shot
            [of chicken_growing "''animal_2000_xyz''" 2000 "0.9" "0.9" "''animal_4000_uvw''" 4000 0 0]
      chicken_growing_state(1,2)
    by simp
  then have "breedingAttempted (props (fold animal_after
      [CallIsMature 3000, CallAttemptBreeding ''animal_4000_uvw'' 4000 0 0] ?a1))"
    by blast
  moreover from latch have "fst (Animal_attemptBreeding (fold animal_after [CallIsMature 3000] ?a1)
      ''animal_4000_uvw'' 4000 0 0) = Returned no_attempt"
    by (metis fst_conv)
  ultimately show ?thesis
    using latch chicken_growing_state(1,2) by blast
qed

lemma attemptAnimalBreeding_adds_nothing:
  assumes "fst (Animal_attemptBreeding (animals (inventory s) ! i) newId now u1 u2)
             = Returned \<lparr>attempted = True, bred = True, survived = False, r_offspring = None\<rparr>"
  shows "length (animals (inventory (snd (attemptAnimalBreeding s i newId now u1 u2))))
           = length (animals (inventory s))"
  using assms
  by (simp add: attemptAnimalBreeding_def split_beta Let_def)

text \<open>
  C6. On a Growing animal that has not attempted yet, when the breeding trial succeeds
  and the survival trial fails, \<open>attemptBreeding()\<close> returns
  \<open>{attempted: true, bred: true, survived: false, offspring: null}\<close> and the offspring
  array of the parent is as before. With \<open>breedingChance = 1.0\<close> and
  \<open>offspringSurvivalRate = 0.0\<close> that is the outcome for every pair of draws of
  \<open>Math.random()\<close>, and the breeding step of the timer then adds no animal to the farm.
\<close>

theorem attemptBreeding_bred_not_survived:
  assumes "animal_of_config a" "a_status (props a) = AnimalGrowing"
    "\<not> breedingAttempted (props a)"
    "(randomBoolean (breedingChance (props a)) u1
        \<and> \<not> randomBoolean (offspringSurvivalRate (props a)) u2)
     \<or> (breedingChance (props a) = 1.0 \<and> offspringSurvivalRate (props a) = 0.0
        \<and> 0 \<le> u1 \<and> u1 < 1 \<and> 0 \<le> u2 \<and> u2 < 1)"
  shows "fst (Animal_attemptBreeding a newId now u1 u2)
           = Returned \<lparr>attempted = True, bred = True, survived = False, r_offspring = None\<rparr>
       \<and> offspring (snd (Animal_attemptBreeding a newId now u1 u2)) = offspring a
       \<and> (\<forall>s i. animals (inventory s) ! i = a \<longrightarrow>
             length (animals (inventory (snd (attemptAnimalBreeding s i newId now u1 u2))))
               = length (animals (inventory s)))"
proof -
  obtain child where child: "Animal_new (a_type (props a)) False newId now = Returned child"
    using Animal_new_of_config_returns [OF assms(1)] by blast
  have trials: "randomBoolean (breedingChance (props a)) u1"
    "\<not> randomBoolean (offspringSurvivalRate (props a)) u2"
    using assms(4) by (auto simp: randomBoolean_def)
  have result: "fst (Animal_attemptBreeding a newId now u1 u2)
      = Returned \<lparr>attempted = True, bred = True, survived = False, r_offspring = None\<rparr>"
    using trials assms(2,3) child
    by (simp add: Animal_attemptBreeding_def assign_def Let_def no_attempt_def)
  have kept: "offspring (snd (Animal_attemptBreeding a newId now u1 u2)) = offspring a"
    using trials assms(2,3) child
    by (simp add: Animal_attemptBreeding_def assign_def Let_def)
  have farm: "length (animals (inventory (snd (attemptAnimalBreeding s i newId now u1 u2))))
      = length (animals (inventory s))" if "animals (inventory s) ! i = a" for s i
    using result that by (simp add: attemptAnimalBreeding_adds_nothing)
  show ?thesis
    using result kept farm by blast
qed

lemma chicken_always_breeds_state:
  "animal_of_config chicken_always_breeds"
  "a_status (props chicken_always_breeds) = AnimalGrowing"
  "\<not> breedingAttempted (props chicken_always_breeds)"
  "breedingChance (props chicken_always_breeds) = 1.0"
  "offspringSurvivalRate (props chicken_always_breeds) = 0.0"
  "offspring chicken_always_breeds = []"
  using chicken_growing_of_config
  by (simp_all add: chicken_always_breeds_def assign_def chicken_growing_state
      animal_of_config_def split: option.splits)

theorem attemptBreeding_bred_not_survived_witness:
  "animal_of_config chicken_always_breeds
   \<and> a_status (props chicken_always_breeds) = AnimalGrowing
   \<and> \<not> breedingAttempted (props chicken_always_breeds)
   \<and> breedingChance (props chicken_always_breeds) = 1.0
   \<and> offspringSurvivalRate (props chicken_always_breeds) = 0.0
   \<and> fst (Animal_attemptBreeding chicken_always_breeds ''animal_2000_xyz'' 2000 0.5 0.5)
        = Returned \<lparr>attempted = True, bred = True, survived = False, r_offspring = None\<rparr>
   \<and> offspring (snd (Animal_attemptBreeding chicken_always_breeds ''animal_2000_xyz'' 2000 0.5 0.5))
        = []"
  using attemptBreeding_bred_not_survived
          [where a = chicken_always_breeds and ?u1.0 = "0.5" and ?u2.0 = "0.5"
             and newId = "''animal_2000_xyz''" and now = 2000]
    chicken_always_breeds_state
  by simp

text \<open>
  C10. On a Growing animal that has not attempted yet, \<open>attemptBreeding()\<close> makes a real
  attempt at any time: it returns a result with \<open>attempted: true\<close> and leaves
  \<open>breedingAttempted\<close> true. Below 50 percent of growth \<open>canBreed()\<close> is false, and the
  attempt is made all the same: \<open>attemptBreeding\<close> looks at \<open>breedingAttempted\<close> and
  the status only.
\<close>

theorem attemptBreeding_not_gated_by_progress:
  assumes "animal_of_config a" "a_status (props a) = AnimalGrowing"
    "\<not> breedingAttempted (props a)"
  shows "(\<exists>r. fst (Animal_attemptBreeding a newId now u1 u2) = Returned r \<and> attempted r)
       \<and> breedingAttempted (props (snd (Animal_attemptBreeding a newId now u1 u2)))
       \<and> (Animal_getGrowthProgress a now < 50 \<longrightarrow> \<not> Animal_canBreed a now)"
proof -
  obtain child where child: "Animal_new (a_type (props a)) False newId now = Returned child"
    using Animal_new_of_config_returns [OF assms(1)] by blast
  have "\<exists>r. fst (Animal_attemptBreeding a newId now u1 u2) = Returned r \<and> attempted r"
    using assms(2,3) child
    by (simp add: Animal_attemptBreeding_def assign_def Let_def no_attempt_def)
  moreover have "breedingAttempted (props (snd (Animal_attemptBreeding a newId now u1 u2)))"
    using assms(2) by (rule attemptBreeding_latches)
  moreover have "Animal_getGrowthProgress a now < 50 \<longrightarrow> \<not> Animal_canBreed a now"
    by (simp add: Animal_canBreed_def)
  ultimately show ?thesis by blast
qed

theorem attemptBreeding_not_gated_by_progress_witness:
  "animal_of_config chicken_growing \<and> a_status (props chicken_growing) = AnimalGrowing
   \<and> \<not> breedingAttempted (props chicken_growing)
   \<and> Animal_getGrowthProgress chicken_growing 46000 = 25
   \<and> \<not> Animal_canBreed chicken_growing 46000
   \<and> (\<exists>r. fst (Animal_attemptBreeding chicken_growing ''animal_46000_xyz'' 46000 0.9 0.9)
             = Returned r \<and> attempted r)
   \<and> breedingAttempted
        (props (snd (Animal_attemptBreeding chicken_growing ''animal_46000_xyz'' 46000 0.9 0.9)))"
  using attemptBreeding_not_gated_by_progress
          [where a = chicken_growing and newId = "''animal_46000_xyz''" and now = 46000
             and ?u1.0 = "0.9" and ?u2.0 = "0.9"]
    chicken_growing_of_config chicken_growing_state example_progress_values
  by simp


section \<open>Doubles\<close>

lemma roundHalfEven_of_int: "roundHalfEven (real_of_int k) = k"
  by (simp add: roundHalfEven_def)

lemma roundHalfEven_nonneg: "0 \<le> y \<Longrightarrow> 0 \<le> roundHalfEven y"
  by (auto simp: roundHalfEven_def Let_def)

lemma floorlog2_eq:
  assumes "2 ^ w \<le> a" "a < 2 ^ Suc w"
  shows "floorlog 2 a = Suc w"
proof -
  have "floorlog 2 a \<le> Suc w"
    using assms(2) by (simp add: floorlog_le_iff)
  moreover have "Suc w \<le> floorlog 2 a"
    using assms(1) by (intro floorlog_ge_SucI) simp_all
  ultimately show ?thesis by simp
qed

lemma floor_log2_nat:
  assumes "2 ^ w \<le> a" "a < 2 ^ Suc w"
  shows "floor_log2 (real a) = int w"
proof -
  have "1 \<le> a"
    using assms(1) by (metis one_le_numeral one_le_power order_trans)
  then show ?thesis
    using floorlog2_eq [OF assms] by (simp add: floor_log2_def)
qed

text \<open>
  A value that is a whole multiple of its unit in the last place and is below \<open>2^1024\<close>
  is a double: rounding leaves it as it is.
\<close>

lemma toDouble_exact:
  assumes "x = real_of_int k * 2 powi (max (floor_log2 \<bar>x\<bar>) (- 1022) - 52)"
    and "\<bar>x\<bar> < 2 powi 1024"
  shows "toDouble x = Fin x"
proof (cases "x = 0")
  case True
  then show ?thesis by (simp add: toDouble_def)
next
  case False
  let ?ulp = "2 powi (max (floor_log2 \<bar>x\<bar>) (- 1022) - 52) :: real"
  have "?ulp \<noteq> 0" by simp
  with assms(1) have "x / ?ulp = real_of_int k"
    by (metis nonzero_mult_div_cancel_right)
  then have "real_of_int (roundHalfEven (x / ?ulp)) * ?ulp = x"
    using assms(1) by (simp add: roundHalfEven_of_int)
  with False assms(2) show ?thesis
    by (simp add: toDouble_def Let_def)
qed

lemma floor_log2_of_int:
  assumes "\<bar>n\<bar> \<le> 2 ^ 53" "n \<noteq> 0"
  shows "\<exists>w. w \<le> 53 \<and> floor_log2 \<bar>real_of_int n\<bar> = int w \<and> (2::int) ^ w \<le> \<bar>n\<bar>"
proof -
  define a where "a = nat \<bar>n\<bar>"
  have a: "0 < a" "a \<le> 2 ^ 53" "real a = \<bar>real_of_int n\<bar>" "int a = \<bar>n\<bar>"
    using assms by (simp_all add: a_def nat_le_iff)
  define w where "w = floorlog 2 a - 1"
  have "floorlog 2 a \<noteq> 0"
    using a(1) by (simp add: floorlog_eq_zero_iff)
  then have fl: "floorlog 2 a = Suc w"
    by (simp add: w_def)
  have b: "2 ^ w \<le> a" "a < 2 ^ Suc w"
    using floorlog_bounds [of a 2] a(1) fl by simp_all
  have w53: "w \<le> 53"
  proof (rule ccontr)
    assume "\<not> w \<le> 53"
    then have "54 \<le> w" by simp
    then have "(2::nat) ^ 54 \<le> 2 ^ w" by (rule power_increasing) simp
    with b(1) a(2) show False by simp
  qed
  have e: "floor_log2 \<bar>real_of_int n\<bar> = int w"
    using floor_log2_nat [OF b] a(3) by simp
  have "int (2 ^ w) \<le> int a" using b(1) by (simp only: of_nat_le_iff)
  then have "(2::int) ^ w \<le> \<bar>n\<bar>" using a(4) by simp
  with w53 e show ?thesis by blast
qed

lemma of_int_multiple_of_ulp:
  assumes "w \<le> 53" "(2::int) ^ w \<le> \<bar>n\<bar>" "\<bar>n\<bar> \<le> 2 ^ 53"
  shows "\<exists>k. real_of_int n = real_of_int k * 2 powi (int w - 52)"
proof (cases "w \<le> 52")
  case True
  then have "int w - 52 = - int (52 - w)" by simp
  then have p: "(2::real) powi (int w - 52) = 1 / 2 ^ (52 - w)"
    by (simp only: power_int_minus_divide power_int_of_nat)
  have "real_of_int (n * 2 ^ (52 - w)) * (1 / 2 ^ (52 - w)) = real_of_int n"
    by simp
  with p have "real_of_int n = real_of_int (n * 2 ^ (52 - w)) * 2 powi (int w - 52)"
    by simp
  then show ?thesis by (rule exI)
next
  case False
  with assms(1) have w: "w = 53" by simp
  with assms(2,3) have "\<bar>n\<bar> = 2 ^ 53" by simp
  then have "n = 2 ^ 53 \<or> n = - (2 ^ 53)" by (simp only: abs_eq_iff')
  then have "n = 2 * (n div 2)" by auto
  then have "real_of_int n = real_of_int (2 * (n div 2))" by simp
  also have "\<dots> = real_of_int (n div 2) * 2" by simp
  finally have "real_of_int n = real_of_int (n div 2) * 2 powi (int w - 52)"
    using w by simp
  then show ?thesis by (rule exI)
qed

text \<open>Every whole number up to \<open>2^53\<close> in absolute value is a double.\<close>

lemma toDouble_of_int:
  assumes "\<bar>n\<bar> \<le> 2 ^ 53"
  shows "toDouble (real_of_int n) = Fin (real_of_int n)"
proof (cases "n = 0")
  case True
  then show ?thesis by (simp add: toDouble_def)
next
  case False
  from floor_log2_of_int [OF assms False] obtain w where w: "w \<le> 53"
    "floor_log2 \<bar>real_of_int n\<bar> = int w" "(2::int) ^ w \<le> \<bar>n\<bar>"
    by blast
  from of_int_multiple_of_ulp [OF w(1) w(3) assms] obtain k
    where k: "real_of_int n = real_of_int k * 2 powi (int w - 52)" ..
  have m: "max (floor_log2 \<bar>real_of_int n\<bar>) (- 1022) = int w"
    by (simp add: w(2))
  have "real_of_int \<bar>n\<bar> \<le> real_of_int (2 ^ 53)"
    using assms by (simp only: of_int_le_iff)
  then have "\<bar>real_of_int n\<bar> \<le> 2 ^ 53"
    by simp
  also have "\<dots> < (2::real) ^ 1024"
    by (rule power_strict_increasing) simp_all
  finally have lt: "\<bar>real_of_int n\<bar> < 2 powi 1024"
    by simp
  show ?thesis
  proof (rule toDouble_exact [where k = k])
    show "real_of_int n
        = real_of_int k * 2 powi (max (floor_log2 \<bar>real_of_int n\<bar>) (- 1022) - 52)"
      unfolding m by (rule k)
    show "\<bar>real_of_int n\<bar> < 2 powi 1024"
      by (rule lt)
  qed
qed

lemma toDouble_nonneg: "0 \<le> x \<Longrightarrow> js_geq (toDouble x) 0"
proof -
  assume x: "0 \<le> x"
  have "0 \<le> real_of_int (roundHalfEven (x / u)) * u" if "0 < u" for u
    using x that roundHalfEven_nonneg [of "x / u"] by simp
  then have "0 \<le> real_of_int (roundHalfEven (x / 2 powi e)) * 2 powi e" for e
    by simp
  then show ?thesis
    using x by (auto simp: toDouble_def js_geq_def Let_def)
qed

text \<open>
  The doubles around \<open>10^17\<close> are 16 apart: \<open>10^17\<close> is one of them, \<open>10^17 + 50\<close> is
  not and rounds to \<open>10^17 + 48\<close>.
\<close>

lemma toDouble_1e17:
  "toDouble 100000000000000000 = Fin 100000000000000000"
  "toDouble 100000000000000050 = Fin 100000000000000048"
proof -
  have e1: "floor_log2 100000000000000000 = 56"
    using floor_log2_nat [of 56 100000000000000000] by simp
  have e2: "floor_log2 100000000000000050 = 56"
    using floor_log2_nat [of 56 100000000000000050] by simp
  show "toDouble 100000000000000000 = Fin 100000000000000000"
    by (simp add: toDouble_def Let_def e1 roundHalfEven_def)
  show "toDouble 100000000000000050 = Fin 100000000000000048"
    by (simp add: toDouble_def Let_def e2 roundHalfEven_def)
qed


section \<open>Money\<close>

lemma checkMilestonesFrom_keeps:
  "currentMoney (checkMilestonesFrom ms s) = currentMoney s"
  "gameStatus (checkMilestonesFrom ms s) = gameStatus s"
  "goalMoney (checkMilestonesFrom ms s) = goalMoney s"
  "currentDay (checkMilestonesFrom ms s) = currentDay s"
  "weatherForecast (checkMilestonesFrom ms s) = weatherForecast s"
  "inventory (checkMilestonesFrom ms s) = inventory s"
  "statistics (checkMilestonesFrom ms s) = statistics s"
  by (induction ms arbitrary: s; simp add: reachMilestone_def)+

lemma checkWinCondition_keeps:
  "currentMoney (checkWinCondition s) = currentMoney s"
  "gameStatus s \<noteq> PLAYING \<Longrightarrow> checkWinCondition s = s"
  by (simp_all add: checkWinCondition_def)

lemma addMoney_valid:
  assumes "0 \<le> x"
  shows "fst (addMoney s (Num x))"
    and "currentMoney (snd (addMoney s (Num x))) = js_add (currentMoney s) x"
    and "gameStatus (snd (addMoney s (Num x)))
           = (if gameStatus s = PLAYING \<and> js_geq (js_add (currentMoney s) x) (goalMoney s)
              then WON else gameStatus s)"
  using assms
  by (simp_all add: addMoney_def Let_def checkWinCondition_def checkMilestones_def
      checkMilestonesFrom_keeps)



lemma deductMoney_beyond_balance:
  "js_less (currentMoney s) y \<Longrightarrow> deductMoney s (Num y) = (False, s)"
  by (simp add: deductMoney_def)

lemma deductMoney_affordable:
  assumes "0 \<le> x" "\<not> js_less (currentMoney s) x"
  shows "fst (deductMoney s (Num x))"
    and "currentMoney (snd (deductMoney s (Num x))) = js_sub (currentMoney s) x"
  using assms by (simp_all add: deductMoney_def Let_def)

text \<open>
  The balance is never negative (and never NaN): it is 50 in a new game, \<open>addMoney\<close>
  adds a non-negative amount or nothing, and \<open>deductMoney\<close> takes away no more than the
  balance.
\<close>

lemma currentMoney_nonneg:
  "js_geq (currentMoney (GameState_new rnd now)) 0"
  "js_geq (currentMoney s) 0 \<Longrightarrow> js_geq (currentMoney (snd (addMoney s amount))) 0"
  "js_geq (currentMoney s) 0 \<Longrightarrow> js_geq (currentMoney (snd (deductMoney s amount))) 0"
proof -
  show "js_geq (currentMoney (GameState_new rnd now)) 0"
    by (simp add: GameState_new_def STARTING_MONEY_def js_geq_def)
  show "js_geq (currentMoney (snd (addMoney s amount))) 0" if "js_geq (currentMoney s) 0"
  proof (cases amount)
    case (Num x)
    show ?thesis
    proof (cases "0 \<le> x")
      case True
      have "js_geq (js_add (currentMoney s) x) 0"
        using that True toDouble_nonneg [of "v + x" for v]
        by (cases "currentMoney s") (simp_all add: js_add_def js_geq_def)
      then show ?thesis
        using True Num by (simp add: addMoney_valid(2))
    next
      case False
      then show ?thesis
        using that Num by (simp add: addMoney_def)
    qed
  qed (use that in \<open>simp_all add: addMoney_def\<close>)
  show "js_geq (currentMoney (snd (deductMoney s amount))) 0" if "js_geq (currentMoney s) 0"
  proof (cases amount)
    case (Num x)
    show ?thesis
    proof (cases "0 \<le> x \<and> \<not> js_less (currentMoney s) x")
      case True
      have "js_geq (js_sub (currentMoney s) x) 0"
        using that True toDouble_nonneg [of "v - x" for v]
        by (cases "currentMoney s") (simp_all add: js_sub_def js_geq_def js_less_def)
      then show ?thesis
        using True Num by (simp add: deductMoney_affordable(2))
    next
      case False
      then show ?thesis
        using that Num by (auto simp: deductMoney_def)
    qed
  qed (use that in \<open>simp_all add: deductMoney_def\<close>)
qed

lemma add_then_deduct_exact:
  assumes "currentMoney s = Fin m" "0 \<le> m" "toDouble m = Fin m" "0 \<le> x"
    "toDouble (m + x) = Fin (m + x)"
  shows "fst (addMoney s (Num x))
      \<and> fst (deductMoney (snd (addMoney s (Num x))) (Num x))
      \<and> currentMoney (snd (deductMoney (snd (addMoney s (Num x))) (Num x))) = currentMoney s"
proof -
  let ?s1 = "snd (addMoney s (Num x))"
  have m1: "currentMoney ?s1 = Fin (m + x)"
    using addMoney_valid(2) [OF assms(4), of s] assms(1,5) by (simp add: js_add_def)
  then have afford: "\<not> js_less (currentMoney ?s1) x"
    using assms(2) by (simp add: js_less_def)
  have "currentMoney (snd (deductMoney ?s1 (Num x))) = Fin m"
    using deductMoney_affordable(2) [OF assms(4) afford] m1 assms(3)
    by (simp add: js_sub_def)
  then show ?thesis
    using addMoney_valid(1) [OF assms(4)] deductMoney_affordable(1) [OF assms(4) afford] assms(1)
    by simp
qed

text \<open>
  C4 (as amended). On a Ledger whose balance is not negative, when the sum of the balance
  and a valid amount \<open>x \<ge> 0\<close> is computed without rounding (the sum is itself a double),
  \<open>addMoney(x)\<close> succeeds, \<open>deductMoney(x)\<close> right after it succeeds too, and
  \<open>currentMoney\<close> is back at its value before the two calls. That is so in particular
  for a whole-dollar balance and a whole-dollar amount whose sum is at most \<open>2^53\<close>.
  \<open>deductMoney\<close> of an amount above the balance returns false and leaves the whole
  state, the balance included, as it was.
\<close>

theorem addMoney_deductMoney_exact_sum:
  "(currentMoney s = Fin m \<and> 0 \<le> m \<and> toDouble m = Fin m \<and> 0 \<le> x
      \<and> toDouble (m + x) = Fin (m + x) \<longrightarrow>
      fst (addMoney s (Num x))
      \<and> fst (deductMoney (snd (addMoney s (Num x))) (Num x))
      \<and> currentMoney (snd (deductMoney (snd (addMoney s (Num x))) (Num x))) = currentMoney s)
   \<and> (currentMoney s = Fin (real_of_int i) \<and> 0 \<le> i \<and> 0 \<le> j \<and> i + j \<le> 2 ^ 53 \<longrightarrow>
      fst (addMoney s (Num (real_of_int j)))
      \<and> fst (deductMoney (snd (addMoney s (Num (real_of_int j)))) (Num (real_of_int j)))
      \<and> currentMoney (snd (deductMoney (snd (addMoney s (Num (real_of_int j))))
                              (Num (real_of_int j)))) = currentMoney s)
   \<and> (js_less (currentMoney s) y \<longrightarrow> deductMoney s (Num y) = (False, s))"
proof -
  have whole: "fst (addMoney s (Num (real_of_int j)))
      \<and> fst (deductMoney (snd (addMoney s (Num (real_of_int j)))) (Num (real_of_int j)))
      \<and> currentMoney (snd (deductMoney (snd (addMoney s (Num (real_of_int j))))
                              (Num (real_of_int j)))) = currentMoney s"
    if "currentMoney s = Fin (real_of_int i)" "0 \<le> i" "0 \<le> j" "i + j \<le> 2 ^ 53"
  proof (rule add_then_deduct_exact [OF that(1)])
    show "0 \<le> real_of_int i" "0 \<le> real_of_int j"
      using that(2,3) by simp_all
    show "toDouble (real_of_int i) = Fin (real_of_int i)"
      using that(2,3,4) by (intro toDouble_of_int) simp
    have "toDouble (real_of_int (i + j)) = Fin (real_of_int (i + j))"
      using that(2,3,4) by (intro toDouble_of_int) simp
    then show "toDouble (real_of_int i + real_of_int j) = Fin (real_of_int i + real_of_int j)"
      by simp
  qed
  show ?thesis
    using add_then_deduct_exact [of s m x] whole deductMoney_beyond_balance [of s y]
    by blast
qed

lemma new_game_state:
  "currentMoney new_game = Fin 50"
  "gameStatus new_game = PLAYING"
  "goalMoney new_game = 5000"
  "currentDay new_game = 1"
  by (simp_all add: new_game_def GameState_new_def STARTING_MONEY_def GOAL_MONEY_def)

lemma toDouble_whole_dollars:
  "toDouble 10 = Fin 10" "toDouble 18 = Fin 18" "toDouble 48 = Fin 48" "toDouble 50 = Fin 50"
  "toDouble 68 = Fin 68" "toDouble 5040 = Fin 5040" "toDouble 5050 = Fin 5050"
  "toDouble 5060 = Fin 5060"
  using toDouble_of_int [of 10] toDouble_of_int [of 18] toDouble_of_int [of 48]
    toDouble_of_int [of 50] toDouble_of_int [of 68] toDouble_of_int [of 5040]
    toDouble_of_int [of 5050] toDouble_of_int [of 5060]
  by simp_all

theorem addMoney_deductMoney_exact_sum_witness:
  "currentMoney new_game = Fin 50 \<and> (0::real) \<le> 50 \<and> toDouble 50 = Fin 50 \<and> (0::real) \<le> 18
   \<and> toDouble (50 + 18) = Fin (50 + 18)
   \<and> currentMoney (snd (addMoney new_game (Num 18))) = Fin 68
   \<and> fst (deductMoney (snd (addMoney new_game (Num 18))) (Num 18))
   \<and> currentMoney (snd (deductMoney (snd (addMoney new_game (Num 18))) (Num 18))) = Fin 50
   \<and> js_less (currentMoney new_game) 70
   \<and> deductMoney new_game (Num 70) = (False, new_game)"
  using addMoney_deductMoney_exact_sum [of new_game 50 18 50 18 70]
    addMoney_valid(2) [of 18 new_game] new_game_state toDouble_whole_dollars
  by (simp add: js_add_def js_less_def)

text \<open>
  C4 as stated fails: \<open>10^17\<close> is a valid finite non-negative amount (it is a double),
  and on the balance 50 of a new game \<open>addMoney(1e17)\<close> stores the sum rounded to
  \<open>10^17 + 48\<close>, so that \<open>deductMoney(1e17)\<close> right after it, which succeeds, leaves the
  balance 48.
\<close>

theorem addMoney_deductMoney_counterexample:
  "currentMoney new_game = Fin 50
   \<and> isValidNumber (Num 100000000000000000) \<and> (0::real) \<le> 100000000000000000
   \<and> toDouble 100000000000000000 = Fin 100000000000000000
   \<and> fst (addMoney new_game (Num 100000000000000000)) = True
   \<and> currentMoney (snd (addMoney new_game (Num 100000000000000000)))
        = Fin 100000000000000048
   \<and> fst (deductMoney (snd (addMoney new_game (Num 100000000000000000)))
            (Num 100000000000000000)) = True
   \<and> currentMoney (snd (deductMoney (snd (addMoney new_game (Num 100000000000000000)))
                           (Num 100000000000000000))) = Fin 48"
proof -
  let ?x = "100000000000000000 :: real"
  let ?s1 = "snd (addMoney new_game (Num ?x))"
  have x: "0 \<le> ?x" by simp
  have m1: "currentMoney ?s1 = Fin 100000000000000048"
    using addMoney_valid(2) [OF x, of new_game]
    by (simp add: new_game_state js_add_def toDouble_1e17)
  then have afford: "\<not> js_less (currentMoney ?s1) ?x"
    by (simp add: js_less_def)
  have "currentMoney (snd (deductMoney ?s1 (Num ?x))) = Fin 48"
    using deductMoney_affordable(2) [OF x afford] m1
    by (simp add: js_sub_def toDouble_whole_dollars)
  then show ?thesis
    using addMoney_valid(1) [OF x, of new_game] deductMoney_affordable(1) [OF x afford] m1
    by (simp add: new_game_state toDouble_1e17)
qed


section \<open>The status of the game and the methods of the Ledger\<close>












section \<open>Capacity of the farm\<close>

lemma findIndex_Some:
  "findIndex p xs = Some i \<Longrightarrow> i < length xs \<and> p (xs ! i) \<and> find p xs = Some (xs ! i)"
  by (induction xs arbitrary: i) (auto split: if_splits)

lemma findIndex_None: "findIndex p xs = None \<longleftrightarrow> find p xs = None"
  by (induction xs) auto

lemma plantCrop_found:
  assumes "findIndex (\<lambda>c. c_id c = cropId) (seeds (inventory s)) = Some i"
  shows "fst (plantCrop s cropId now)"
    and "length (crops (inventory (snd (plantCrop s cropId now))))
           = length (crops (inventory s)) + 1"
  using assms by (simp_all add: plantCrop_def Let_def)

lemma plantCrop_not_found:
  assumes "findIndex (\<lambda>c. c_id c = cropId) (seeds (inventory s)) = None"
  shows "plantCrop s cropId now = (False, s)"
  using assms by (simp add: plantCrop_def)

lemma placeAnimal_found:
  assumes "findIndex (\<lambda>a. a_id (props a) = animalId) (youngAnimals (inventory s)) = Some i"
  shows "fst (placeAnimal s animalId now)"
    and "length (animals (inventory (snd (placeAnimal s animalId now))))
           = length (animals (inventory s)) + 1"
  using assms by (simp_all add: placeAnimal_def Let_def)

lemma placeAnimal_not_found:
  assumes "findIndex (\<lambda>a. a_id (props a) = animalId) (youngAnimals (inventory s)) = None"
  shows "placeAnimal s animalId now = (False, s)"
  using assms by (simp add: placeAnimal_def)

lemma FarmManager_plantCrop_cases:
  "FarmManager_plantCrop s cropId now =
     (if isGameOver s then (Inl GameIsOver, s)
      else if \<not> canPlantMoreCrops s then (Inl NoSpace, s)
      else case findIndex (\<lambda>c. c_id c = cropId) (seeds (inventory s)) of
             None \<Rightarrow> (Inl NotInInventory, s)
           | Some i \<Rightarrow> (Inr (snd (Crop_plant (seeds (inventory s) ! i) now)),
                        snd (plantCrop s cropId now)))"
proof (cases "findIndex (\<lambda>c. c_id c = cropId) (seeds (inventory s))")
  case None
  then show ?thesis
    by (simp add: FarmManager_plantCrop_def findIndex_None [THEN iffD1])
next
  case (Some i)
  from findIndex_Some [OF this] plantCrop_found(1) [OF Some, of now] Some show ?thesis
    by (simp add: FarmManager_plantCrop_def split_beta)
qed

lemma FarmManager_placeAnimal_cases:
  "FarmManager_placeAnimal s animalId now =
     (if isGameOver s then (Inl GameIsOver, s)
      else if \<not> canPlaceMoreAnimals s then (Inl NoSpace, s)
      else case findIndex (\<lambda>a. a_id (props a) = animalId) (youngAnimals (inventory s)) of
             None \<Rightarrow> (Inl NotInInventory, s)
           | Some i \<Rightarrow> (Inr (snd (Animal_place (youngAnimals (inventory s) ! i) now)),
                        snd (placeAnimal s animalId now)))"
proof (cases "findIndex (\<lambda>a. a_id (props a) = animalId) (youngAnimals (inventory s))")
  case None
  then show ?thesis
    by (simp add: FarmManager_placeAnimal_def findIndex_None [THEN iffD1])
next
  case (Some i)
  from findIndex_Some [OF this] placeAnimal_found(1) [OF Some, of now] Some show ?thesis
    by (simp add: FarmManager_placeAnimal_def split_beta)
qed


text \<open>
  C3 (as amended). \<open>GameState.plantCrop(id)\<close> and \<open>GameState.placeAnimal(id)\<close> do not
  look at the capacity: they succeed exactly when the id is found in the seeds (the
  young animals), and then the growing crops (the placed animals) are one more, whatever
  their number was. The refusal at capacity is made by their callers
  \<open>FarmManager.plantCrop\<close> and \<open>FarmManager.placeAnimal\<close>, which ask
  \<open>canPlantMoreCrops()\<close> (\<open>canPlaceMoreAnimals()\<close>) first: when the collection is
  already at its maximum they return a failure and leave the state as it is, and after a
  successful call the collection holds at most \<open>MAX_CROP_SLOTS\<close>
  (\<open>MAX_ANIMAL_SLOTS\<close>) entities.
\<close>

theorem capacity_refused_by_FarmManager:
  "(fst (plantCrop s cropId now)
      \<longleftrightarrow> findIndex (\<lambda>c. c_id c = cropId) (seeds (inventory s)) \<noteq> None)
   \<and> (fst (plantCrop s cropId now) \<longrightarrow>
        length (crops (inventory (snd (plantCrop s cropId now))))
          = length (crops (inventory s)) + 1)
   \<and> (length (crops (inventory s)) \<ge> MAX_CROP_SLOTS \<longrightarrow>
        (\<exists>refusal. FarmManager_plantCrop s cropId now = (Inl refusal, s)))
   \<and> (\<forall>crop s'. FarmManager_plantCrop s cropId now = (Inr crop, s') \<longrightarrow>
        length (crops (inventory s')) \<le> MAX_CROP_SLOTS)
   \<and> (fst (placeAnimal s animalId now)
      \<longleftrightarrow> findIndex (\<lambda>a. a_id (props a) = animalId) (youngAnimals (inventory s)) \<noteq> None)
   \<and> (fst (placeAnimal s animalId now) \<longrightarrow>
        length (animals (inventory (snd (placeAnimal s animalId now))))
          = length (animals (inventory s)) + 1)
   \<and> (length (animals (inventory s)) \<ge> MAX_ANIMAL_SLOTS \<longrightarrow>
        (\<exists>refusal. FarmManager_placeAnimal s animalId now = (Inl refusal, s)))
   \<and> (\<forall>animal s'. FarmManager_placeAnimal s animalId now = (Inr animal, s') \<longrightarrow>
        length (animals (inventory s')) \<le> MAX_ANIMAL_SLOTS)"
proof -
  have c1: "fst (plantCrop s cropId now)
      \<longleftrightarrow> findIndex (\<lambda>c. c_id c = cropId) (seeds (inventory s)) \<noteq> None"
    using plantCrop_found(1) [of cropId s _ now] plantCrop_not_found [of cropId s now]
    by (cases "findIndex (\<lambda>c. c_id c = cropId) (seeds (inventory s))") auto
  have c2: "length (crops (inventory (snd (plantCrop s cropId now))))
      = length (crops (inventory s)) + 1" if "fst (plantCrop s cropId now)"
    using that c1 plantCrop_found(2) [of cropId s _ now] by auto
  have c3: "\<exists>refusal. FarmManager_plantCrop s cropId now = (Inl refusal, s)"
    if "length (crops (inventory s)) \<ge> MAX_CROP_SLOTS"
    using that by (simp add: FarmManager_plantCrop_cases canPlantMoreCrops_def)
  have c4: "length (crops (inventory s')) \<le> MAX_CROP_SLOTS"
    if "FarmManager_plantCrop s cropId now = (Inr crop, s')" for crop s'
    using that plantCrop_found(2) [of cropId s _ now]
    by (auto simp: FarmManager_plantCrop_cases canPlantMoreCrops_def
        split: if_splits option.splits)
  have a1: "fst (placeAnimal s animalId now)
      \<longleftrightarrow> findIndex (\<lambda>a. a_id (props a) = animalId) (youngAnimals (inventory s)) \<noteq> None"
    using placeAnimal_found(1) [of animalId s _ now] placeAnimal_not_found [of animalId s now]
    by (cases "findIndex (\<lambda>a. a_id (props a) = animalId) (youngAnimals (inventory s))") auto
  have a2: "length (animals (inventory (snd (placeAnimal s animalId now))))
      = length (animals (inventory s)) + 1" if "fst (placeAnimal s animalId now)"
    using that a1 placeAnimal_found(2) [of animalId s _ now] by auto
  have a3: "\<exists>refusal. FarmManager_placeAnimal s animalId now = (Inl refusal, s)"
    if "length (animals (inventory s)) \<ge> MAX_ANIMAL_SLOTS"
    using that by (simp add: FarmManager_placeAnimal_cases canPlaceMoreAnimals_def)
  have a4: "length (animals (inventory s')) \<le> MAX_ANIMAL_SLOTS"
    if "FarmManager_placeAnimal s animalId now = (Inr animal, s')" for animal s'
    using that placeAnimal_found(2) [of animalId s _ now]
    by (auto simp: FarmManager_placeAnimal_cases canPlaceMoreAnimals_def
        split: if_splits option.splits)
  show ?thesis
    using c1 c2 c3 c4 a1 a2 a3 a4 by blast
qed

lemma full_farm_state:
  "length (crops (inventory full_farm)) = 10"
  "length (animals (inventory full_farm)) = 5"
  "findIndex (\<lambda>c. c_id c = ''crop_0_abc123'') (seeds (inventory full_farm)) = Some 0"
  "findIndex (\<lambda>a. a_id (props a) = ''animal_0_def456'') (youngAnimals (inventory full_farm))
     = Some 0"
  "isGameOver full_farm = False"
  by (simp_all add: full_farm_def wheat_seed_def chicken_young_def isGameOver_def
      new_game_state)

theorem capacity_refused_by_FarmManager_witness:
  "fst (plantCrop full_farm ''crop_0_abc123'' 2000)
   \<and> length (crops (inventory (snd (plantCrop full_farm ''crop_0_abc123'' 2000)))) = 11
   \<and> length (crops (inventory full_farm)) \<ge> MAX_CROP_SLOTS
   \<and> (\<exists>refusal. FarmManager_plantCrop full_farm ''crop_0_abc123'' 2000
                   = (Inl refusal, full_farm))
   \<and> fst (placeAnimal full_farm ''animal_0_def456'' 2000)
   \<and> length (animals (inventory full_farm)) \<ge> MAX_ANIMAL_SLOTS
   \<and> (\<exists>refusal. FarmManager_placeAnimal full_farm ''animal_0_def456'' 2000
                   = (Inl refusal, full_farm))"
  using capacity_refused_by_FarmManager
          [of full_farm "''crop_0_abc123''" 2000 "''animal_0_def456''"]
    full_farm_state
  by (simp add: MAX_CROP_SLOTS_def MAX_ANIMAL_SLOTS_def)

text \<open>
  C3 as stated fails: on a farm with \<open>MAX_CROP_SLOTS\<close> growing crops and
  \<open>MAX_ANIMAL_SLOTS\<close> placed animals, \<open>plantCrop\<close> and \<open>placeAnimal\<close> of GameState
  return true and leave eleven crops and six animals.
\<close>

theorem capacity_counterexample:
  "length (crops (inventory full_farm)) = MAX_CROP_SLOTS
   \<and> fst (plantCrop full_farm ''crop_0_abc123'' 2000) = True
   \<and> length (crops (inventory (snd (plantCrop full_farm ''crop_0_abc123'' 2000)))) = 11
   \<and> length (animals (inventory full_farm)) = MAX_ANIMAL_SLOTS
   \<and> fst (placeAnimal full_farm ''animal_0_def456'' 2000) = True
   \<and> length (animals (inventory (snd (placeAnimal full_farm ''animal_0_def456'' 2000)))) = 6"
  using plantCrop_found [OF full_farm_state(3), of 2000]
    placeAnimal_found [OF full_farm_state(4), of 2000]
  by (simp add: full_farm_state MAX_CROP_SLOTS_def MAX_ANIMAL_SLOTS_def)

section \<open>The forecast window over the days of a game\<close>

lemma checkLoseCondition_keeps:
  "currentMoney (checkLoseCondition s) = currentMoney s"
  "goalMoney (checkLoseCondition s) = goalMoney s"
  "currentDay (checkLoseCondition s) = currentDay s"
  "weatherForecast (checkLoseCondition s) = weatherForecast s"
  by (simp_all add: checkLoseCondition_def)

lemma advanceDay_window:
  assumes w: "window s = (PLAYING, k, ds)"
    and money: "js_less (currentMoney s) (goalMoney s)"
    and f: "filter (\<lambda>d. k + 1 \<le> d) ds = ds'"
    and ne: "ds' \<noteq> []"
    and day: "k + 1 \<le> TOTAL_DAYS"
  shows "fst (advanceDay s u now) = Returned ()"
    and "window (snd (advanceDay s u now))
           = (PLAYING, k + 1,
              ds' @ [if last ds' + 1 < 1 \<or> last ds' + 1 > TOTAL_DAYS then 1 else last ds' + 1])"
    and "js_less (currentMoney (snd (advanceDay s u now))) (goalMoney (snd (advanceDay s u now)))"
proof -
  let ?ws = "filter (\<lambda>w. k + 1 \<le> w_day w) (weatherForecast s)"
  from w have st: "gameStatus s = PLAYING" "currentDay s = k" "map w_day (weatherForecast s) = ds"
    by (simp_all add: window_def)
  have "map w_day ?ws = filter (\<lambda>d. k + 1 \<le> d) (map w_day (weatherForecast s))"
    by (simp add: filter_map comp_def)
  then have days: "map w_day ?ws = ds'"
    using f st(3) by simp
  with ne have ne': "?ws \<noteq> []"
    by auto
  have l: "w_day (last ?ws) = last ds'"
    using days ne' by (metis last_map)
  have u: "updateWeatherForecast (s\<lparr>currentDay := k + 1\<rparr>) u now =
      (Returned (), s\<lparr>currentDay := k + 1,
         weatherForecast := ?ws @ [Weather_new (DayNum (last ds' + 1)) None u now]\<rparr>)"
    using ne' l by (simp add: updateWeatherForecast_def Let_def)
  have a: "advanceDay s u now =
      (Returned (), checkLoseCondition (s\<lparr>currentDay := k + 1,
         weatherForecast := ?ws @ [Weather_new (DayNum (last ds' + 1)) None u now]\<rparr>))"
    using st u by (simp add: advanceDay_def Let_def)
  show "fst (advanceDay s u now) = Returned ()"
    by (simp add: a)
  show "window (snd (advanceDay s u now))
           = (PLAYING, k + 1,
              ds' @ [if last ds' + 1 < 1 \<or> last ds' + 1 > TOTAL_DAYS then 1 else last ds' + 1])"
    using st day days
    by (simp add: a window_def checkLoseCondition_def Weather_new_day)
  show "js_less (currentMoney (snd (advanceDay s u now))) (goalMoney (snd (advanceDay s u now)))"
    using money by (simp add: a checkLoseCondition_keeps)
qed

lemma advanceDay_throws:
  assumes w: "window s = (PLAYING, k, ds)"
    and f: "filter (\<lambda>d. k + 1 \<le> d) ds = []"
  shows "advanceDay s u now
           = (Threw ''TypeError'', s\<lparr>currentDay := k + 1, weatherForecast := []\<rparr>)"
proof -
  from w have st: "gameStatus s = PLAYING" "currentDay s = k" "map w_day (weatherForecast s) = ds"
    by (simp_all add: window_def)
  have "map w_day (filter (\<lambda>w. k + 1 \<le> w_day w) (weatherForecast s))
      = filter (\<lambda>d. k + 1 \<le> d) (map w_day (weatherForecast s))"
    by (simp add: filter_map comp_def)
  then have "map w_day (filter (\<lambda>w. k + 1 \<le> w_day w) (weatherForecast s)) = []"
    using f st(3) by simp
  then have "filter (\<lambda>w. k + 1 \<le> w_day w) (weatherForecast s) = []"
    by simp
  then show ?thesis
    using st by (simp add: advanceDay_def updateWeatherForecast_def Let_def)
qed

lemma GameState_new_window:
  "window (GameState_new rnd now) = (PLAYING, 1, [1, 2, 3, 4, 5, 6, 7])"
  "js_less (currentMoney (GameState_new rnd now)) (goalMoney (GameState_new rnd now))"
  by (simp_all add: window_def GameState_new_def generateForecast_days js_less_def
      WEATHER_FORECAST_DAYS_def TOTAL_DAYS_def STARTING_MONEY_def GOAL_MONEY_def upt_rec)

lemma advanceDays_window:
  assumes "window (advanceDays n s rnd now) = (PLAYING, k, ds)"
    and "js_less (currentMoney (advanceDays n s rnd now)) (goalMoney (advanceDays n s rnd now))"
    and "filter (\<lambda>d. k + 1 \<le> d) ds = ds'"
    and "ds' \<noteq> []"
    and "k + 1 \<le> TOTAL_DAYS"
    and "m = Suc n"
  shows "window (advanceDays m s rnd now)
           = (PLAYING, k + 1,
              ds' @ [if last ds' + 1 < 1 \<or> last ds' + 1 > TOTAL_DAYS then 1 else last ds' + 1])"
    and "js_less (currentMoney (advanceDays m s rnd now)) (goalMoney (advanceDays m s rnd now))"
  using advanceDay_window(2,3) [OF assms(1-5)] assms(6) by simp_all

text \<open>The first nine days of a game that is never won, for any weather drawn.\<close>

lemma first_days_window:
  fixes rnd rnd' :: "nat \<Rightarrow> real" and now now' :: int
  shows "window (advanceDays 3 (GameState_new rnd now) rnd' now') = (PLAYING, 4, [4, 5, 6, 7, 8, 9, 10])"
    and "window (advanceDays 4 (GameState_new rnd now) rnd' now') = (PLAYING, 5, [5, 6, 7, 8, 9, 10, 1])"
    and "window (advanceDays 5 (GameState_new rnd now) rnd' now') = (PLAYING, 6, [6, 7, 8, 9, 10, 1])"
    and "window (advanceDays 9 (GameState_new rnd now) rnd' now') = (PLAYING, 10, [10, 1])"
proof -
  let ?A = "\<lambda>n. advanceDays n (GameState_new rnd now) rnd' now'"
  have w0: "window (?A 0) = (PLAYING, 1, [1, 2, 3, 4, 5, 6, 7])"
    and m0: "js_less (currentMoney (?A 0)) (goalMoney (?A 0))"
    by (simp_all add: GameState_new_window)
  have w1: "window (?A 1) = (PLAYING, 2, [2, 3, 4, 5, 6, 7, 8])"
    and m1: "js_less (currentMoney (?A 1)) (goalMoney (?A 1))"
    using advanceDays_window [OF w0 m0, of "[2, 3, 4, 5, 6, 7]" 1]
    by (simp_all add: TOTAL_DAYS_def del: advanceDays.simps)
  have w2: "window (?A 2) = (PLAYING, 3, [3, 4, 5, 6, 7, 8, 9])"
    and m2: "js_less (currentMoney (?A 2)) (goalMoney (?A 2))"
    using advanceDays_window [OF w1 m1, of "[3, 4, 5, 6, 7, 8]" 2]
    by (simp_all add: TOTAL_DAYS_def del: advanceDays.simps)
  have w3: "window (?A 3) = (PLAYING, 4, [4, 5, 6, 7, 8, 9, 10])"
    and m3: "js_less (currentMoney (?A 3)) (goalMoney (?A 3))"
    using advanceDays_window [OF w2 m2, of "[4, 5, 6, 7, 8, 9]" 3]
    by (simp_all add: TOTAL_DAYS_def del: advanceDays.simps)
  have w4: "window (?A 4) = (PLAYING, 5, [5, 6, 7, 8, 9, 10, 1])"
    and m4: "js_less (currentMoney (?A 4)) (goalMoney (?A 4))"
    using advanceDays_window [OF w3 m3, of "[5, 6, 7, 8, 9, 10]" 4]
    by (simp_all add: TOTAL_DAYS_def del: advanceDays.simps)
  have w5: "window (?A 5) = (PLAYING, 6, [6, 7, 8, 9, 10, 1])"
    and m5: "js_less (currentMoney (?A 5)) (goalMoney (?A 5))"
    using advanceDays_window [OF w4 m4, of "[6, 7, 8, 9, 10]" 5]
    by (simp_all add: TOTAL_DAYS_def del: advanceDays.simps)
  have w6: "window (?A 6) = (PLAYING, 7, [7, 8, 9, 10, 1])"
    and m6: "js_less (currentMoney (?A 6)) (goalMoney (?A 6))"
    using advanceDays_window [OF w5 m5, of "[7, 8, 9, 10]" 6]
    by (simp_all add: TOTAL_DAYS_def del: advanceDays.simps)
  have w7: "window (?A 7) = (PLAYING, 8, [8, 9, 10, 1])"
    and m7: "js_less (currentMoney (?A 7)) (goalMoney (?A 7))"
    using advanceDays_window [OF w6 m6, of "[8, 9, 10]" 7]
    by (simp_all add: TOTAL_DAYS_def del: advanceDays.simps)
  have w8: "window (?A 8) = (PLAYING, 9, [9, 10, 1])"
    and m8: "js_less (currentMoney (?A 8)) (goalMoney (?A 8))"
    using advanceDays_window [OF w7 m7, of "[9, 10]" 8]
    by (simp_all add: TOTAL_DAYS_def del: advanceDays.simps)
  have w9: "window (?A 9) = (PLAYING, 10, [10, 1])"
    using advanceDays_window [OF w8 m8, of "[10]" 9]
    by (simp_all add: TOTAL_DAYS_def del: advanceDays.simps)
  show "window (?A 3) = (PLAYING, 4, [4, 5, 6, 7, 8, 9, 10])"
    and "window (?A 4) = (PLAYING, 5, [5, 6, 7, 8, 9, 10, 1])"
    and "window (?A 5) = (PLAYING, 6, [6, 7, 8, 9, 10, 1])"
    and "window (?A 9) = (PLAYING, 10, [10, 1])"
    by (rule w3 w4 w5 w9)+
qed

text \<open>
  C2, at the failing input: a new game and five calls of \<open>advanceDay()\<close>. After the
  fourth call the entry appended for day 11 has day 1; the fifth call drops it with day 5,
  and the window holds six entries, not the seven of the forecast horizon (and one fewer
  after each later call). The tenth call finds the filtered window empty and throws
  before the lose condition is checked: on day 11 the game is still Playing, with no
  forecast entry at all.
\<close>

theorem forecast_window_shrinks:
  fixes rnd rnd' :: "nat \<Rightarrow> real" and now now' :: int
  shows "window (advanceDays 4 (GameState_new rnd now) rnd' now')
           = (PLAYING, 5, [5, 6, 7, 8, 9, 10, 1])
       \<and> window (advanceDays 5 (GameState_new rnd now) rnd' now')
           = (PLAYING, 6, [6, 7, 8, 9, 10, 1])
       \<and> length (weatherForecast (advanceDays 5 (GameState_new rnd now) rnd' now')) = 6
       \<and> WEATHER_FORECAST_DAYS = 7
       \<and> fst (advanceDay (advanceDays 9 (GameState_new rnd now) rnd' now') u now')
           = Threw ''TypeError''
       \<and> window (advanceDays 10 (GameState_new rnd now) rnd' now') = (PLAYING, 11, [])"
proof -
  let ?A = "\<lambda>n. advanceDays n (GameState_new rnd now) rnd' now'"
  have w5: "window (?A 5) = (PLAYING, 6, [6, 7, 8, 9, 10, 1])"
    by (rule first_days_window)
  then have "map w_day (weatherForecast (?A 5)) = [6, 7, 8, 9, 10, 1]"
    by (simp add: window_def)
  then have "length (map w_day (weatherForecast (?A 5))) = 6"
    by simp
  then have len: "length (weatherForecast (?A 5)) = 6"
    by simp
  have w9: "window (?A 9) = (PLAYING, 10, [10, 1])"
    by (rule first_days_window)
  have t: "advanceDay (?A 9) v now'
      = (Threw ''TypeError'', (?A 9)\<lparr>currentDay := 10 + 1, weatherForecast := []\<rparr>)" for v
    by (rule advanceDay_throws [OF w9]) simp
  have "?A 10 = snd (advanceDay (?A 9) (rnd' 9) now')"
    by (simp add: numeral_eq_Suc)
  then have w10: "window (?A 10) = (PLAYING, 11, [])"
    using w9 by (simp add: t window_def)
  show ?thesis
    using first_days_window(2) [of rnd now rnd' now'] w5 len t w10
    by (simp add: WEATHER_FORECAST_DAYS_def)
qed

end
